theory Spec2Isabelle
  imports Complex_Main "HOL-Library.AList"
begin

section \<open>JavaScript strings and numerals\<close>

text \<open>
  A JavaScript string is modelled as a \<^typ>\<open>string\<close>: the list of its code units, for
  the code units below 256. All the patterns of the daemon are ASCII.
\<close>

definition is_digit :: "char \<Rightarrow> bool" where
  "is_digit c = (let n = (of_char c :: nat) in 48 \<le> n \<and> n \<le> 57)"

definition is_hex_digit :: "char \<Rightarrow> bool" where
  "is_hex_digit c =
     (let n = (of_char c :: nat)
      in (48 \<le> n \<and> n \<le> 57) \<or> (65 \<le> n \<and> n \<le> 70) \<or> (97 \<le> n \<and> n \<le> 102))"

definition digit_value :: "char \<Rightarrow> nat" where
  "digit_value c =
     (let n = (of_char c :: nat)
      in if n \<le> 57 then n - 48 else if n \<le> 70 then n - 55 else n - 87)"

definition digit_char :: "nat \<Rightarrow> char" where
  "digit_char d = char_of (48 + d)"

text \<open>
  The white space that \<^verbatim>\<open>String.prototype.trim\<close> and the numeric string grammar
  strip: TAB, LF, VT, FF, CR, SP and NBSP (the white space and line terminators below 256).
\<close>

definition is_js_space :: "char \<Rightarrow> bool" where
  "is_js_space c = ((of_char c :: nat) \<in> {9, 10, 11, 12, 13, 32, 160})"

definition trim :: "string \<Rightarrow> string" where
  "trim s = rev (dropWhile is_js_space (rev (dropWhile is_js_space s)))"

text \<open>\<^verbatim>\<open>s.startsWith(p)\<close>\<close>

definition startsWith :: "string \<Rightarrow> string \<Rightarrow> bool" where
  "startsWith s p = (take (length p) s = p)"

text \<open>\<^verbatim>\<open>s.split(sep)\<close> for a separator of one character: never the empty list.\<close>

fun js_split :: "char \<Rightarrow> string \<Rightarrow> string list" where
  "js_split sep [] = [[]]"
| "js_split sep (c # cs) =
     (if c = sep then [] # js_split sep cs
      else (case js_split sep cs of
              [] \<Rightarrow> [[c]]
            | p # ps \<Rightarrow> (c # p) # ps))"

text \<open>The value of a digit string in a base, accumulated from the left as a parser does.\<close>

definition digits_value :: "nat \<Rightarrow> string \<Rightarrow> nat" where
  "digits_value b ds = foldl (\<lambda>acc c. acc * b + digit_value c) 0 ds"

text \<open>The decimal digits of a natural number, without leading zeros (\<open>0\<close> is \<open>''0''\<close>).\<close>

fun dec_digits :: "nat \<Rightarrow> string" where
  "dec_digits n =
     (if n < 10 then [digit_char n] else dec_digits (n div 10) @ [digit_char (n mod 10)])"

declare dec_digits.simps [simp del]

subsection \<open>The regular expressions of the daemon\<close>

text \<open>\<^verbatim>\<open>const ADDRESS_REGEX = /^0x[a-fA-F0-9]{40}$/;\<close>\<close>

definition ADDRESS_REGEX :: "string \<Rightarrow> bool" where
  "ADDRESS_REGEX s =
     (case s of
        c0 # c1 # h \<Rightarrow> c0 = CHR ''0'' \<and> c1 = CHR ''x'' \<and> length h = 40 \<and> list_all is_hex_digit h
      | _ \<Rightarrow> False)"

text \<open>\<^verbatim>\<open>const HEX_DATA_REGEX = /^0x[a-fA-F0-9]*$/;\<close>\<close>

definition HEX_DATA_REGEX :: "string \<Rightarrow> bool" where
  "HEX_DATA_REGEX s =
     (case s of
        c0 # c1 # h \<Rightarrow> c0 = CHR ''0'' \<and> c1 = CHR ''x'' \<and> list_all is_hex_digit h
      | _ \<Rightarrow> False)"

text \<open>
  \<^verbatim>\<open>const NETWORK_REGEX = /^eip155:\d+$/i;\<close> The flag \<^verbatim>\<open>i\<close> lets the letters of the
  prefix match in either case; \<^verbatim>\<open>\d\<close> is an ASCII digit.
\<close>

definition ascii_lower :: "char \<Rightarrow> char" where
  "ascii_lower c =
     (let n = (of_char c :: nat) in if 65 \<le> n \<and> n \<le> 90 then char_of (n + 32) else c)"

definition NETWORK_REGEX :: "string \<Rightarrow> bool" where
  "NETWORK_REGEX s =
     (map ascii_lower (take 7 s) = ''eip155:'' \<and> drop 7 s \<noteq> [] \<and> list_all is_digit (drop 7 s))"

text \<open>\<^verbatim>\<open>function isValidAddress(value: string): boolean\<close>\<close>

definition isValidAddress :: "string \<Rightarrow> bool" where
  "isValidAddress v = ADDRESS_REGEX v"

subsection \<open>BigInt and toFixed\<close>

text \<open>
  \<^verbatim>\<open>BigInt(s)\<close> on a string: white space is stripped, the empty string is \<open>0\<close>, a prefix
  \<^verbatim>\<open>0x\<close>, \<^verbatim>\<open>0o\<close> or \<^verbatim>\<open>0b\<close> (in either case) selects the base and takes no sign, a
  decimal literal takes an optional sign. Anything else is a SyntaxError, here \<open>None\<close>.
\<close>

definition parse_digits :: "nat \<Rightarrow> (char \<Rightarrow> bool) \<Rightarrow> string \<Rightarrow> int option" where
  "parse_digits b ok ds =
     (if ds \<noteq> [] \<and> list_all ok ds then Some (int (digits_value b ds)) else None)"

definition is_oct_digit :: "char \<Rightarrow> bool" where
  "is_oct_digit c = (let n = (of_char c :: nat) in 48 \<le> n \<and> n \<le> 55)"

definition is_bin_digit :: "char \<Rightarrow> bool" where
  "is_bin_digit c = (c = CHR ''0'' \<or> c = CHR ''1'')"

definition js_BigInt :: "string \<Rightarrow> int option" where
  "js_BigInt s =
     (let t = trim s
      in if t = [] then Some 0
         else if take 2 t = ''0x'' \<or> take 2 t = ''0X'' then parse_digits 16 is_hex_digit (drop 2 t)
         else if take 2 t = ''0o'' \<or> take 2 t = ''0O'' then parse_digits 8 is_oct_digit (drop 2 t)
         else if take 2 t = ''0b'' \<or> take 2 t = ''0B'' then parse_digits 2 is_bin_digit (drop 2 t)
         else (case t of
                 c # ds \<Rightarrow>
                   if c = CHR ''+'' then parse_digits 10 is_digit ds
                   else if c = CHR ''-'' then map_option uminus (parse_digits 10 is_digit ds)
                   else parse_digits 10 is_digit t
               | [] \<Rightarrow> Some 0))"

text \<open>The remainder \<^verbatim>\<open>%\<close> of BigInt takes the sign of the dividend.\<close>

definition js_rem :: "int \<Rightarrow> int \<Rightarrow> int" where
  "js_rem a b = sgn a * (\<bar>a\<bar> mod \<bar>b\<bar>)"

text \<open>
  \<^verbatim>\<open>x.toFixed(f)\<close> as the language standard gives it, for \<open>\<bar>x\<bar> < 10\<^sup>2\<^sup>1\<close>: \<open>n\<close> is
  the integer for which \<open>n / 10\<^sup>f - x\<close> is closest to zero (the larger one of two), \<open>m\<close> its
  digits, padded with zeros to \<open>f + 1\<close> digits, and the point goes before the last \<open>f\<close>
  digits. The number is modelled by its exact value.
\<close>

definition js_toFixed :: "nat \<Rightarrow> rat \<Rightarrow> string" where
  "js_toFixed f x0 =
     (let s = (if x0 < 0 then ''-'' else '''');
          x = \<bar>x0\<bar>;
          n = nat \<lfloor>x * 10 ^ f + 1 / 2\<rfloor>;
          m = (if n = 0 then ''0'' else dec_digits n);
          k = length m;
          m' = (if k \<le> f then replicate (f + 1 - k) (CHR ''0'') @ m else m);
          k' = (if k \<le> f then f + 1 else k)
      in if f \<noteq> 0 then s @ take (k' - f) m' @ ''.'' @ drop (k' - f) m' else s @ m)"

section \<open>The deterministic balance\<close>

datatype error = Error string | TypeError | SyntaxError

text \<open>
  \<^verbatim>\<open>
  function computeMockBalance(address: string, network: string): string {
    const addrPart = BigInt('0x' + address.slice(2, 10));
    const networkPart = BigInt(network.split(':')[1] ?? '0');
    const raw = Number((addrPart + networkPart) % BigInt(500000));
    return (raw / 1000).toFixed(6);
  }
  \<close>
  The quotient \<^verbatim>\<open>raw / 1000\<close> is a double within \<open>2\<^sup>-\<^sup>4\<^sup>4\<close> of the exact quotient,
  and \<^verbatim>\<open>toFixed(6)\<close> picks the multiple of \<open>10\<^sup>-\<^sup>6\<close> closest to it, which is the exact
  quotient itself: the model divides exactly.
\<close>

definition computeMockBalance :: "string \<Rightarrow> string \<Rightarrow> error + string" where
  "computeMockBalance address network =
     (case js_BigInt (''0x'' @ take 8 (drop 2 address)) of
        None \<Rightarrow> Inl SyntaxError
      | Some addrPart \<Rightarrow>
          (case js_BigInt (case js_split (CHR '':'') network of _ # p # _ \<Rightarrow> p | _ \<Rightarrow> ''0'') of
             None \<Rightarrow> Inl SyntaxError
           | Some networkPart \<Rightarrow>
               (let raw = js_rem (addrPart + networkPart) 500000
                in Inr (js_toFixed 6 (of_int raw / 1000)))))"

section \<open>JSON values\<close>

text \<open>
  The request bodies are whatever \<^verbatim>\<open>express.json()\<close> parsed, and the daemon tests their
  members at run time, so they are modelled as JavaScript values. A finite number carries
  its value and the text that \<^verbatim>\<open>String\<close> gives for it (the model keeps the pair as it
  is given). An object is the list of its own members, looked up by key.
\<close>

datatype jsnum = NaN | PosInf | NegInf | Fin rat string

datatype jsval =
    JUndefined
  | JNull
  | JBool bool
  | JNum jsnum
  | JStr string
  | JArr "jsval list"
  | JObj "(string \<times> jsval) list"

fun number_text :: "jsnum \<Rightarrow> string" where
  "number_text NaN = ''NaN''"
| "number_text PosInf = ''Infinity''"
| "number_text NegInf = ''-Infinity''"
| "number_text (Fin q t) = t"

text \<open>\<^verbatim>\<open>Number.isFinite(n)\<close> and \<^verbatim>\<open>n < 0\<close> on a number.\<close>

fun js_isFinite :: "jsnum \<Rightarrow> bool" where
  "js_isFinite (Fin q t) = True"
| "js_isFinite _ = False"

fun js_negative :: "jsnum \<Rightarrow> bool" where
  "js_negative (Fin q t) = (q < 0)"
| "js_negative NegInf = True"
| "js_negative _ = False"

text \<open>Truthiness: what \<^verbatim>\<open>!v\<close>, \<^verbatim>\<open>v ? a : b\<close> and \<^verbatim>\<open>v && w\<close> test.\<close>

fun js_truthy :: "jsval \<Rightarrow> bool" where
  "js_truthy JUndefined = False"
| "js_truthy JNull = False"
| "js_truthy (JBool b) = b"
| "js_truthy (JNum (Fin q t)) = (q \<noteq> 0)"
| "js_truthy (JNum NaN) = False"
| "js_truthy (JNum _) = True"
| "js_truthy (JStr s) = (s \<noteq> [])"
| "js_truthy (JArr xs) = True"
| "js_truthy (JObj kvs) = True"

fun js_typeof :: "jsval \<Rightarrow> string" where
  "js_typeof JUndefined = ''undefined''"
| "js_typeof JNull = ''object''"
| "js_typeof (JBool b) = ''boolean''"
| "js_typeof (JNum n) = ''number''"
| "js_typeof (JStr s) = ''string''"
| "js_typeof (JArr xs) = ''object''"
| "js_typeof (JObj kvs) = ''object''"

text \<open>\<^verbatim>\<open>v ?? d\<close>\<close>

definition nullish :: "jsval \<Rightarrow> bool" where
  "nullish v = (v = JUndefined \<or> v = JNull)"

definition coalesce :: "jsval \<Rightarrow> jsval \<Rightarrow> jsval" where
  "coalesce v d = (if nullish v then d else v)"

text \<open>
  \<^verbatim>\<open>v.k\<close> for the member names the daemon reads, on a value that is not nullish (on
  \<^verbatim>\<open>null\<close> and \<^verbatim>\<open>undefined\<close> the access throws a TypeError, which the operations
  below test first): an own member of an object, \<^verbatim>\<open>undefined\<close> otherwise.
\<close>

fun js_get :: "jsval \<Rightarrow> string \<Rightarrow> jsval" where
  "js_get (JObj kvs) k = (case map_of kvs k of None \<Rightarrow> JUndefined | Some v \<Rightarrow> v)"
| "js_get _ k = JUndefined"

text \<open>\<^verbatim>\<open>v.k = w\<close> on an object.\<close>

fun set_prop :: "jsval \<Rightarrow> string \<Rightarrow> jsval \<Rightarrow> jsval" where
  "set_prop (JObj kvs) k w = JObj (AList.update k w kvs)"
| "set_prop v k w = v"

text \<open>
  \<^verbatim>\<open>String(v)\<close>, and the conversion that \<^verbatim>\<open>RegExp.prototype.test\<close> applies to its
  argument. An array joins its elements with commas, \<^verbatim>\<open>null\<close> and \<^verbatim>\<open>undefined\<close>
  elements as the empty string. An object is \<^verbatim>\<open>[object Object]\<close> through the inherited
  \<^verbatim>\<open>toString\<close>; an own member \<^verbatim>\<open>toString\<close> of a parsed body is never callable and hides
  it, and the conversion throws a TypeError, here \<open>None\<close>.
\<close>

fun js_String :: "jsval \<Rightarrow> string option" and js_join :: "jsval list \<Rightarrow> string option" where
  "js_String JUndefined = Some ''undefined''"
| "js_String JNull = Some ''null''"
| "js_String (JBool b) = Some (if b then ''true'' else ''false'')"
| "js_String (JNum n) = Some (number_text n)"
| "js_String (JStr s) = Some s"
| "js_String (JArr xs) = js_join xs"
| "js_String (JObj kvs) =
     (if map_of kvs ''toString'' \<noteq> None then None else Some ''[object Object]'')"
| "js_join [] = Some []"
| "js_join (x # xs) =
     (case (if x = JUndefined \<or> x = JNull then Some [] else js_String x) of
        None \<Rightarrow> None
      | Some s \<Rightarrow>
          (if xs = [] then Some s
           else (case js_join xs of None \<Rightarrow> None | Some t \<Rightarrow> Some (s @ '','' @ t))))"

text \<open>
  \<^verbatim>\<open>
  function normalizeAddress(value?: string): string {
    return typeof value === 'string' ? value.trim() : '';
  }
  \<close>
\<close>

fun normalizeAddress :: "jsval \<Rightarrow> string" where
  "normalizeAddress (JStr s) = trim s"
| "normalizeAddress _ = []"

section \<open>Configuration\<close>

record NetworkConfig =
  name :: string
  rpcUrl :: string

record WalletConfig =
  networks :: "NetworkConfig list"

text \<open>
  \<^verbatim>\<open>
  const DEFAULT_CONFIG: WalletConfig = {
    networks: [
      { name: 'eip155:1', rpcUrl: 'https://rpc.ankr.com/eth' },
      { name: 'eip155:11155111', rpcUrl: 'https://rpc.ankr.com/eth_sepolia' }
    ]
  };
  const NETWORK_NAME_PATTERN = /^eip155:\d+$/i;
  \<close>
\<close>

definition DEFAULT_CONFIG :: WalletConfig where
  "DEFAULT_CONFIG =
     \<lparr>networks =
        [\<lparr>name = ''eip155:1'', rpcUrl = ''https://rpc.ankr.com/eth''\<rparr>,
         \<lparr>name = ''eip155:11155111'', rpcUrl = ''https://rpc.ankr.com/eth_sepolia''\<rparr>]\<rparr>"

definition NETWORK_NAME_PATTERN :: "string \<Rightarrow> bool" where
  "NETWORK_NAME_PATTERN s = NETWORK_REGEX s"

text \<open>
  What \<^verbatim>\<open>loadConfig\<close> finds at the path: no file, a file that \<^verbatim>\<open>JSON.parse\<close> rejects
  (with the parser's message), or the parsed value.
\<close>

datatype config_file = Missing | Unparsable string | Parsed jsval

text \<open>The callback of \<^verbatim>\<open>networks.map\<close> in \<^verbatim>\<open>loadConfig\<close>, on one entry.\<close>

definition loadNetwork :: "jsval \<Rightarrow> error + NetworkConfig" where
  "loadNetwork net =
     (if \<not> js_truthy net \<or> js_typeof net \<noteq> ''object''
      then Inl (Error ''Network entries must be objects.'')
      else (case js_String (coalesce (js_get net ''name'') (JStr [])) of
              None \<Rightarrow> Inl TypeError
            | Some ns \<Rightarrow>
                (case js_String (coalesce (js_get net ''rpcUrl'') (JStr [])) of
                   None \<Rightarrow> Inl TypeError
                 | Some rs \<Rightarrow>
                     (let name = trim ns; rpcUrl = trim rs
                      in if \<not> NETWORK_NAME_PATTERN name
                         then Inl (Error (''Invalid network name '' @ [CHR 0x22] @ name @ [CHR 0x22]
                                           @ ''. Expected EIP-155 format like eip155:1.''))
                         else if rpcUrl = []
                         then Inl (Error (''Network '' @ name @ '' must include rpcUrl.''))
                         else Inr \<lparr>name = name, rpcUrl = rpcUrl\<rparr>))))"

text \<open>\<^verbatim>\<open>Array.prototype.map\<close> with a callback that may throw: the first throw ends it.\<close>

fun map_throwing :: "('a \<Rightarrow> error + 'b) \<Rightarrow> 'a list \<Rightarrow> error + 'b list" where
  "map_throwing f [] = Inr []"
| "map_throwing f (x # xs) =
     (case f x of
        Inl e \<Rightarrow> Inl e
      | Inr y \<Rightarrow> (case map_throwing f xs of Inl e \<Rightarrow> Inl e | Inr ys \<Rightarrow> Inr (y # ys)))"

definition loadConfig :: "string \<Rightarrow> config_file \<Rightarrow> error + WalletConfig" where
  "loadConfig configPath file =
     (case file of
        Missing \<Rightarrow> Inr DEFAULT_CONFIG
      | Unparsable msg \<Rightarrow> Inl (Error (''Failed to parse config at '' @ configPath @ '': '' @ msg))
      | Parsed parsed \<Rightarrow>
          (case (if js_typeof parsed \<noteq> ''object'' \<or> parsed = JNull then JUndefined
                 else js_get parsed ''networks'') of
             JArr nets \<Rightarrow>
               (case map_throwing loadNetwork nets of
                  Inl e \<Rightarrow> Inl e
                | Inr ns \<Rightarrow> Inr \<lparr>networks = ns\<rparr>)
           | _ \<Rightarrow> Inl (Error (''Config file must contain a '' @ [CHR 0x22] @ ''networks''
                                 @ [CHR 0x22] @ '' array.''))))"

section \<open>The daemon state\<close>

datatype TxStatus = PENDING | CONFIRMED

datatype SessionStatus = CONNECTED | DISCONNECTED

text \<open>
  \<^verbatim>\<open>interface TxRecord extends TxSendRequest\<close>: the members of the request as the
  validation left them, and the three members the daemon adds.
\<close>

record TxRecord =
  tx_request :: "(string \<times> jsval) list"
  tx_guid :: string
  tx_status :: TxStatus
  tx_createdAt :: int

text \<open>The \<^verbatim>\<open>status\<close> of a \<^verbatim>\<open>TxStatusResponse\<close>: that of a record, or \<^verbatim>\<open>'UNKNOWN'\<close>.\<close>

datatype ResponseStatus = Stored TxStatus | UNKNOWN

record TxStatusResponse =
  rs_guid :: string
  rs_status :: ResponseStatus
  rs_updatedAt :: string

record BalanceResult =
  bal_address :: string
  bal_network :: string
  balanceEth :: string
  bal_updatedAt :: string

record WalletConnectSession =
  wc_id :: string
  wc_address :: string
  wc_network :: string
  wc_uri :: string
  wc_status :: SessionStatus
  wc_connectedAt :: string

text \<open>
  \<^verbatim>\<open>class DaemonState\<close>: the configuration and the two stores (\<^verbatim>\<open>Map\<close>s keyed by
  string). The accounts, the build information and the start time are read-only and no
  operation below reads them.
\<close>

record DaemonState =
  config :: WalletConfig
  txStore :: "string \<rightharpoonup> TxRecord"
  sessions :: "string \<rightharpoonup> WalletConnectSession"

text \<open>The state that the constructor builds: the loaded configuration and empty stores.\<close>

definition newDaemonState :: "WalletConfig \<Rightarrow> DaemonState" where
  "newDaemonState cfg = \<lparr>config = cfg, txStore = Map.empty, sessions = Map.empty\<rparr>"

definition CONFIRM_DELAY_MS :: int where
  "CONFIRM_DELAY_MS = 5000"

text \<open>
  \<^verbatim>\<open>
  isKnownNetwork(network: string): boolean {
    return this.config.networks.some((net) => net.name === network);
  }
  \<close>
\<close>

definition isKnownNetwork :: "DaemonState \<Rightarrow> string \<Rightarrow> bool" where
  "isKnownNetwork state network = list_ex (\<lambda>net. name net = network) (networks (config state))"

text \<open>
  Every operation returns its result, or the error it throws, together with the state it
  leaves. The values of \<^verbatim>\<open>randomUUID()\<close>, \<^verbatim>\<open>Date.now()\<close> and
  \<^verbatim>\<open>new Date().toISOString()\<close> at the call are arguments (\<open>uuid\<close>, \<open>now\<close>, \<open>stamp\<close>).
\<close>

definition getBalance ::
  "DaemonState \<Rightarrow> string \<Rightarrow> string \<Rightarrow> string \<Rightarrow> (error + BalanceResult) \<times> DaemonState" where
  "getBalance state address network stamp =
     (case computeMockBalance address network of
        Inl e \<Rightarrow> (Inl e, state)
      | Inr amount \<Rightarrow>
          (Inr \<lparr>bal_address = address, bal_network = network, balanceEth = amount,
                bal_updatedAt = stamp\<rparr>, state))"

section \<open>Transactions\<close>

text \<open>
  \<^verbatim>\<open>
  function validateTransactionPayload(payload: TxSendRequest, state: DaemonState): void {
    if (!payload || typeof payload !== 'object') {
      throw new Error('Transaction payload must be an object.');
    }
    const network = String(payload.network ?? '').trim();
    const from = normalizeAddress(payload.from);
    const to = payload.to ? normalizeAddress(payload.to) : undefined;
    const contract = payload.contract ? normalizeAddress(payload.contract) : undefined;
    if (!NETWORK_REGEX.test(network) || !state.isKnownNetwork(network)) {
      throw new Error('network must be provided using eip155:<id> format.');
    }
    if (!isValidAddress(from)) {
      throw new Error('from must be a valid hex address.');
    }
    if (to && !isValidAddress(to)) {
      throw new Error('to must be a valid hex address.');
    }
    if (contract && !isValidAddress(contract)) {
      throw new Error('contract must be a valid hex address.');
    }
    if (payload.nonce !== undefined) {
      if (typeof payload.nonce !== 'number' || !Number.isFinite(payload.nonce)
          || payload.nonce < 0) {
        throw new Error('nonce must be a non-negative number when provided.');
      }
    }
    if (payload.value !== undefined && typeof payload.value !== 'string') {
      throw new Error('value must be a string representing ETH.');
    }
    if (payload.data && !HEX_DATA_REGEX.test(payload.data)) {
      throw new Error('data must be a hex string.');
    }
    if (payload.gasPrice && typeof payload.gasPrice !== 'string') {
      throw new Error('gas-price must be a string representing wei.');
    }
    payload.network = network;
    payload.from = from;
    if (to) payload.to = to;
    if (contract) payload.contract = contract;
  }
  \<close>
  The function throws at the first check that fails and otherwise writes the trimmed
  \<^verbatim>\<open>network\<close>, \<^verbatim>\<open>from\<close>, \<^verbatim>\<open>to\<close> and \<^verbatim>\<open>contract\<close> back into the payload; the model
  returns the payload as it is left. The local \<^verbatim>\<open>to\<close> (and \<^verbatim>\<open>contract\<close>) is a string or
  \<^verbatim>\<open>undefined\<close>, here a \<^typ>\<open>string option\<close>.
\<close>

definition validateTransactionPayload :: "jsval \<Rightarrow> DaemonState \<Rightarrow> error + jsval" where
  "validateTransactionPayload payload state =
     (if \<not> js_truthy payload \<or> js_typeof payload \<noteq> ''object''
      then Inl (Error ''Transaction payload must be an object.'')
      else (case js_String (coalesce (js_get payload ''network'') (JStr [])) of
              None \<Rightarrow> Inl TypeError
            | Some ns \<Rightarrow>
       (let network = trim ns;
            from = normalizeAddress (js_get payload ''from'');
            to = (if js_truthy (js_get payload ''to'')
                  then Some (normalizeAddress (js_get payload ''to'')) else None);
            contract = (if js_truthy (js_get payload ''contract'')
                        then Some (normalizeAddress (js_get payload ''contract'')) else None)
        in if \<not> NETWORK_REGEX network \<or> \<not> isKnownNetwork state network
           then Inl (Error ''network must be provided using eip155:<id> format.'')
           else if \<not> isValidAddress from
           then Inl (Error ''from must be a valid hex address.'')
           else if (case to of Some t \<Rightarrow> t \<noteq> [] \<and> \<not> isValidAddress t | None \<Rightarrow> False)
           then Inl (Error ''to must be a valid hex address.'')
           else if (case contract of Some c \<Rightarrow> c \<noteq> [] \<and> \<not> isValidAddress c | None \<Rightarrow> False)
           then Inl (Error ''contract must be a valid hex address.'')
           else if js_get payload ''nonce'' \<noteq> JUndefined \<and>
                   (case js_get payload ''nonce'' of
                      JNum n \<Rightarrow> \<not> js_isFinite n \<or> js_negative n
                    | _ \<Rightarrow> True)
           then Inl (Error ''nonce must be a non-negative number when provided.'')
           else if js_get payload ''value'' \<noteq> JUndefined \<and>
                   js_typeof (js_get payload ''value'') \<noteq> ''string''
           then Inl (Error ''value must be a string representing ETH.'')
           else (case (if js_truthy (js_get payload ''data'')
                       then (case js_String (js_get payload ''data'') of
                               None \<Rightarrow> Some TypeError
                             | Some d \<Rightarrow>
                                 if \<not> HEX_DATA_REGEX d
                                 then Some (Error ''data must be a hex string.'') else None)
                       else None) of
                   Some e \<Rightarrow> Inl e
                 | None \<Rightarrow>
                     if js_truthy (js_get payload ''gasPrice'') \<and>
                        js_typeof (js_get payload ''gasPrice'') \<noteq> ''string''
                     then Inl (Error ''gas-price must be a string representing wei.'')
                     else
                       (let p1 = set_prop payload ''network'' (JStr network);
                            p2 = set_prop p1 ''from'' (JStr from);
                            p3 = (case to of
                                    Some t \<Rightarrow> if t \<noteq> [] then set_prop p2 ''to'' (JStr t) else p2
                                  | None \<Rightarrow> p2);
                            p4 = (case contract of
                                    Some c \<Rightarrow>
                                      if c \<noteq> [] then set_prop p3 ''contract'' (JStr c) else p3
                                  | None \<Rightarrow> p3)
                        in Inr p4)))))"

text \<open>
  The members that \<^verbatim>\<open>{ ...payload, guid, status, createdAt }\<close> copies from the payload
  (an object, once validated): its own members, but for the three that the record sets.
\<close>

fun spread_members :: "jsval \<Rightarrow> (string \<times> jsval) list" where
  "spread_members (JObj kvs) =
     filter (\<lambda>kv. fst kv \<notin> {''guid'', ''status'', ''createdAt''}) kvs"
| "spread_members _ = []"

text \<open>
  \<^verbatim>\<open>
  createTransaction(payload: TxSendRequest): TxRecord {
    validateTransactionPayload(payload, this);
    const record: TxRecord = {
      ...payload,
      guid: randomUUID(),
      status: 'PENDING',
      createdAt: Date.now()
    };
    this.txStore.set(record.guid, record);
    return record;
  }
  \<close>
\<close>

definition createTransaction ::
  "DaemonState \<Rightarrow> jsval \<Rightarrow> string \<Rightarrow> int \<Rightarrow> (error + TxRecord) \<times> DaemonState" where
  "createTransaction state payload uuid now =
     (case validateTransactionPayload payload state of
        Inl e \<Rightarrow> (Inl e, state)
      | Inr payload' \<Rightarrow>
          (let record = \<lparr>tx_request = spread_members payload', tx_guid = uuid,
                         tx_status = PENDING, tx_createdAt = now\<rparr>
           in (Inr record, state\<lparr>txStore := (txStore state)(tx_guid record \<mapsto> record)\<rparr>)))"

text \<open>
  \<^verbatim>\<open>
  getTransactionStatus(guid: string): TxStatusResponse {
    const record = this.txStore.get(guid);
    if (!record) {
      return { guid, status: 'UNKNOWN', updatedAt: new Date().toISOString() };
    }
    const now = Date.now();
    if (record.status === 'PENDING' && now - record.createdAt > CONFIRM_DELAY_MS) {
      record.status = 'CONFIRMED';
      this.txStore.set(guid, record);
    }
    return { guid, status: record.status, updatedAt: new Date().toISOString() };
  }
  \<close>
\<close>

definition getTransactionStatus ::
  "DaemonState \<Rightarrow> string \<Rightarrow> int \<Rightarrow> string \<Rightarrow> TxStatusResponse \<times> DaemonState" where
  "getTransactionStatus state guid now stamp =
     (case txStore state guid of
        None \<Rightarrow> (\<lparr>rs_guid = guid, rs_status = UNKNOWN, rs_updatedAt = stamp\<rparr>, state)
      | Some record \<Rightarrow>
          if tx_status record = PENDING \<and> now - tx_createdAt record > CONFIRM_DELAY_MS
          then (let record' = record\<lparr>tx_status := CONFIRMED\<rparr>
                in (\<lparr>rs_guid = guid, rs_status = Stored (tx_status record'),
                     rs_updatedAt = stamp\<rparr>,
                    state\<lparr>txStore := (txStore state)(guid \<mapsto> record')\<rparr>))
          else (\<lparr>rs_guid = guid, rs_status = Stored (tx_status record),
                 rs_updatedAt = stamp\<rparr>, state))"

section \<open>WalletConnect sessions\<close>

text \<open>
  \<^verbatim>\<open>
  connectSession(data: any): WalletConnectSession {
    const address = normalizeAddress(data.address);
    const network = String(data.network ?? '').trim();
    const uri = String(data.uri ?? '').trim();
    if (!isValidAddress(address) || !NETWORK_REGEX.test(network) || !uri.startsWith('wc:')) {
      throw new Error('network, address, and uri must be provided for WalletConnect.');
    }
    if (!this.isKnownNetwork(network)) {
      throw new Error(`Unknown network ${network}.`);
    }
    const session: WalletConnectSession = {
      id: randomUUID(), address, network, uri,
      status: 'CONNECTED', connectedAt: new Date().toISOString()
    };
    this.sessions.set(session.id, session);
    return session;
  }
  \<close>
\<close>

definition connectSession ::
  "DaemonState \<Rightarrow> jsval \<Rightarrow> string \<Rightarrow> string
     \<Rightarrow> (error + WalletConnectSession) \<times> DaemonState" where
  "connectSession state data uuid stamp =
     (if nullish data then (Inl TypeError, state)
      else (case js_String (coalesce (js_get data ''network'') (JStr [])) of
              None \<Rightarrow> (Inl TypeError, state)
            | Some ns \<Rightarrow>
       (case js_String (coalesce (js_get data ''uri'') (JStr [])) of
          None \<Rightarrow> (Inl TypeError, state)
        | Some us \<Rightarrow>
       (let address = normalizeAddress (js_get data ''address'');
            network = trim ns;
            uri = trim us
        in if \<not> isValidAddress address \<or> \<not> NETWORK_REGEX network \<or> \<not> startsWith uri ''wc:''
           then (Inl (Error ''network, address, and uri must be provided for WalletConnect.''),
                 state)
           else if \<not> isKnownNetwork state network
           then (Inl (Error (''Unknown network '' @ network @ ''.'')), state)
           else (let session = \<lparr>wc_id = uuid, wc_address = address, wc_network = network,
                                 wc_uri = uri, wc_status = CONNECTED, wc_connectedAt = stamp\<rparr>
                 in (Inr session,
                     state\<lparr>sessions := (sessions state)(wc_id session \<mapsto> session)\<rparr>))))))"

text \<open>
  \<^verbatim>\<open>
  switchSession(data: any): WalletConnectSession {
    const id = String(data.session ?? '').trim();
    if (!id || !this.sessions.has(id)) {
      throw new Error('session must reference an existing session id.');
    }
    const existing = this.sessions.get(id)!;
    const nextAddress = data.address ? normalizeAddress(data.address) : existing.address;
    const nextNetwork = data.network ? String(data.network).trim() : existing.network;
    if (data.address && !isValidAddress(nextAddress)) {
      throw new Error('address must be a valid hex string.');
    }
    if (data.network && !this.isKnownNetwork(nextNetwork)) {
      throw new Error(`Unknown network ${nextNetwork}.`);
    }
    const updated: WalletConnectSession = {
      ...existing, address: nextAddress, network: nextNetwork
    };
    this.sessions.set(id, updated);
    return updated;
  }
  \<close>
\<close>

definition SESSION_NOT_FOUND :: error where
  "SESSION_NOT_FOUND = Error ''session must reference an existing session id.''"

definition switchSession ::
  "DaemonState \<Rightarrow> jsval \<Rightarrow> (error + WalletConnectSession) \<times> DaemonState" where
  "switchSession state data =
     (if nullish data then (Inl TypeError, state)
      else (case js_String (coalesce (js_get data ''session'') (JStr [])) of
              None \<Rightarrow> (Inl TypeError, state)
            | Some ss \<Rightarrow>
       (let id = trim ss
        in (case (if id = [] then None else sessions state id) of
              None \<Rightarrow> (Inl SESSION_NOT_FOUND, state)
            | Some existing \<Rightarrow>
       (let nextAddress = (if js_truthy (js_get data ''address'')
                           then normalizeAddress (js_get data ''address'')
                           else wc_address existing)
        in (case (if js_truthy (js_get data ''network'')
                  then map_option trim (js_String (js_get data ''network''))
                  else Some (wc_network existing)) of
              None \<Rightarrow> (Inl TypeError, state)
            | Some nextNetwork \<Rightarrow>
                if js_truthy (js_get data ''address'') \<and> \<not> isValidAddress nextAddress
                then (Inl (Error ''address must be a valid hex string.''), state)
                else if js_truthy (js_get data ''network'') \<and> \<not> isKnownNetwork state nextNetwork
                then (Inl (Error (''Unknown network '' @ nextNetwork @ ''.'')), state)
                else (let updated = existing\<lparr>wc_address := nextAddress,
                                               wc_network := nextNetwork\<rparr>
                      in (Inr updated,
                          state\<lparr>sessions := (sessions state)(id \<mapsto> updated)\<rparr>))))))))"

text \<open>
  \<^verbatim>\<open>
  disconnectSession(data: any): WalletConnectSession {
    const id = String(data.session ?? '').trim();
    if (!id || !this.sessions.has(id)) {
      throw new Error('session must reference an existing session id.');
    }
    const existing = this.sessions.get(id)!;
    const updated: WalletConnectSession = { ...existing, status: 'DISCONNECTED' };
    this.sessions.set(id, updated);
    return updated;
  }
  \<close>
\<close>

definition disconnectSession ::
  "DaemonState \<Rightarrow> jsval \<Rightarrow> (error + WalletConnectSession) \<times> DaemonState" where
  "disconnectSession state data =
     (if nullish data then (Inl TypeError, state)
      else (case js_String (coalesce (js_get data ''session'') (JStr [])) of
              None \<Rightarrow> (Inl TypeError, state)
            | Some ss \<Rightarrow>
       (let id = trim ss
        in (case (if id = [] then None else sessions state id) of
              None \<Rightarrow> (Inl SESSION_NOT_FOUND, state)
            | Some existing \<Rightarrow>
                (let updated = existing\<lparr>wc_status := DISCONNECTED\<rparr>
                 in (Inr updated, state\<lparr>sessions := (sessions state)(id \<mapsto> updated)\<rparr>))))))"

section \<open>The balance as the specification words it\<close>

text \<open>
  The specification's reading of the balance, to compare with \<open>computeMockBalance\<close>.
  An unsigned numeral in positional notation: the leading digit weighs the most.
\<close>

fun unsigned_value :: "nat \<Rightarrow> string \<Rightarrow> nat" where
  "unsigned_value b [] = 0"
| "unsigned_value b (c # cs) = digit_value c * b ^ length cs + unsigned_value b cs"

text \<open>The last \<open>k\<close> decimal digits of a number, with leading zeros.\<close>

primrec last_digits :: "nat \<Rightarrow> nat \<Rightarrow> string" where
  "last_digits 0 n = []"
| "last_digits (Suc k) n = last_digits k (n div 10) @ [digit_char (n mod 10)]"

text \<open>
  A non-negative rational with exactly 6 fractional digits: the integer part, the point,
  and the six digits after it.
\<close>

definition fixed6 :: "rat \<Rightarrow> string" where
  "fixed6 q = dec_digits (nat \<lfloor>q\<rfloor>) @ ''.'' @ last_digits 6 (nat \<lfloor>q * 10 ^ 6\<rfloor>)"

text \<open>The numeric chain id: the decimal numeral after the colon of the network name.\<close>

definition chain_id :: "string \<Rightarrow> nat" where
  "chain_id network = unsigned_value 10 (drop 1 (dropWhile (\<lambda>c. c \<noteq> CHR '':'') network))"

text \<open>
  The first 8 hex characters after \<^verbatim>\<open>0x\<close> as an unsigned integer, plus the chain id,
  modulo 500000 (the integer before the division); then divided by 1000, with 6 fractional
  digits.
\<close>

definition spec_raw :: "string \<Rightarrow> string \<Rightarrow> nat" where
  "spec_raw address network =
     (unsigned_value 16 (take 8 (drop 2 address)) + chain_id network) mod 500000"

definition spec_balanceEth :: "string \<Rightarrow> string \<Rightarrow> string" where
  "spec_balanceEth address network = fixed6 (of_nat (spec_raw address network) / 1000)"

text \<open>
  A decimal numeral read as a rational number: an optional minus sign, digits, and
  optionally a point and more digits.
\<close>

definition read_unsigned_decimal :: "string \<Rightarrow> rat option" where
  "read_unsigned_decimal s =
     (let ip = takeWhile (\<lambda>c. c \<noteq> CHR ''.'') s;
          fp = drop (Suc (length ip)) s
      in if ip \<noteq> [] \<and> list_all is_digit ip \<and> list_all is_digit fp
            \<and> (fp = [] \<longrightarrow> length s = length ip)
         then Some (of_nat (unsigned_value 10 ip) + of_nat (unsigned_value 10 fp) / 10 ^ length fp)
         else None)"

definition read_decimal :: "string \<Rightarrow> rat option" where
  "read_decimal s =
     (case s of
        c # t \<Rightarrow> if c = CHR ''-'' then map_option uminus (read_unsigned_decimal t)
                 else read_unsigned_decimal s
      | [] \<Rightarrow> None)"

section \<open>Notions used by the properties\<close>

text \<open>
  The text that an operation takes from the member \<open>k\<close> of its request:
  \<^verbatim>\<open>String(data.k ?? '').trim()\<close>, when the conversion does not throw.
\<close>

definition requested_text :: "jsval \<Rightarrow> string \<Rightarrow> string option" where
  "requested_text data k = map_option trim (js_String (coalesce (js_get data k) (JStr [])))"

text \<open>The names that \<open>loadConfig\<close> lets into a configuration match the name pattern.\<close>

definition config_names_ok :: "WalletConfig \<Rightarrow> bool" where
  "config_names_ok cfg = list_all (\<lambda>net. NETWORK_NAME_PATTERN (name net)) (networks cfg)"

text \<open>
  The invariant of the session store: every entry is stored under its own id, with a valid
  address, a loaded network and a WalletConnect uri.
\<close>

definition session_store_ok :: "DaemonState \<Rightarrow> bool" where
  "session_store_ok state =
     (\<forall>k s. sessions state k = Some s \<longrightarrow>
        wc_id s = k \<and> isValidAddress (wc_address s) \<and> isKnownNetwork state (wc_network s)
        \<and> startsWith (wc_uri s) ''wc:'')"

section \<open>Example requests and states\<close>

text \<open>
  The addresses of \<^verbatim>\<open>MOCK_ACCOUNTS\<close>, three identifiers as \<^verbatim>\<open>randomUUID()\<close> returns them
  and a time stamp, and the requests, records and states of the examples.
\<close>

abbreviation addr_primary :: string where
  "addr_primary \<equiv> ''0x1111111111111111111111111111111111111111''"

abbreviation addr_research :: string where
  "addr_research \<equiv> ''0xd8dA6BF26964aF9D7eEd9e03E53415D37aA96045''"

abbreviation addr_vault :: string where
  "addr_vault \<equiv> ''0x2222222222222222222222222222222222222222''"

abbreviation uuid_a :: string where
  "uuid_a \<equiv> ''6f1c2f0e-0000-4000-8000-000000000001''"

abbreviation uuid_b :: string where
  "uuid_b \<equiv> ''6f1c2f0e-0000-4000-8000-000000000002''"

abbreviation uuid_c :: string where
  "uuid_c \<equiv> ''6f1c2f0e-0000-4000-8000-000000000003''"

abbreviation time_stamp :: string where
  "time_stamp \<equiv> ''2023-11-14T22:13:20.000Z''"

abbreviation session_a :: WalletConnectSession where
  "session_a \<equiv>
     \<lparr>wc_id = uuid_a, wc_address = addr_primary, wc_network = ''eip155:1'',
      wc_uri = ''wc:example'', wc_status = CONNECTED, wc_connectedAt = time_stamp\<rparr>"

abbreviation state_a :: DaemonState where
  "state_a \<equiv>
     \<lparr>config = DEFAULT_CONFIG, txStore = Map.empty, sessions = [uuid_a \<mapsto> session_a]\<rparr>"

abbreviation tx_pending :: TxRecord where
  "tx_pending \<equiv>
     \<lparr>tx_request = [], tx_guid = ''tx-1'', tx_status = PENDING, tx_createdAt = 1000\<rparr>"

abbreviation tx_flipped :: TxRecord where
  "tx_flipped \<equiv>
     \<lparr>tx_request = [], tx_guid = ''tx-1'', tx_status = CONFIRMED, tx_createdAt = 1000\<rparr>"

abbreviation tx_confirmed :: TxRecord where
  "tx_confirmed \<equiv>
     \<lparr>tx_request = [], tx_guid = ''tx-2'', tx_status = CONFIRMED, tx_createdAt = 1000\<rparr>"

abbreviation state_tx :: DaemonState where
  "state_tx \<equiv>
     \<lparr>config = DEFAULT_CONFIG,
      txStore = [''tx-1'' \<mapsto> tx_pending, ''tx-2'' \<mapsto> tx_confirmed],
      sessions = Map.empty\<rparr>"

abbreviation payload_ok :: jsval where
  "payload_ok \<equiv> JObj [(''network'', JStr ''eip155:1''), (''from'', JStr addr_primary)]"

abbreviation payload_bad_from :: jsval where
  "payload_bad_from \<equiv> JObj [(''network'', JStr ''eip155:1''), (''from'', JStr ''0x1234'')]"

abbreviation payload_blank_to :: jsval where
  "payload_blank_to \<equiv>
     JObj [(''network'', JStr ''eip155:1''), (''from'', JStr addr_primary),
           (''to'', JStr ''   '')]"

abbreviation tx_blank_to :: TxRecord where
  "tx_blank_to \<equiv>
     \<lparr>tx_request = [(''network'', JStr ''eip155:1''), (''from'', JStr addr_primary),
                     (''to'', JStr ''   '')],
      tx_guid = uuid_c, tx_status = PENDING, tx_createdAt = 1700000000000\<rparr>"

abbreviation req_session :: jsval where
  "req_session \<equiv> JObj [(''session'', JStr uuid_a)]"

abbreviation req_switch :: jsval where
  "req_switch \<equiv> JObj [(''session'', JStr uuid_a), (''address'', JStr addr_vault)]"

abbreviation req_switch_bad_address :: jsval where
  "req_switch_bad_address \<equiv> JObj [(''session'', JStr uuid_a), (''address'', JStr ''0x12'')]"

abbreviation req_switch_blank :: jsval where
  "req_switch_blank \<equiv> JObj [(''session'', JStr uuid_a), (''address'', JStr ''   '')]"

abbreviation req_switch_unknown_network :: jsval where
  "req_switch_unknown_network \<equiv>
     JObj [(''session'', JStr uuid_a), (''network'', JStr ''eip155:5'')]"

abbreviation req_connect :: jsval where
  "req_connect \<equiv>
     JObj [(''network'', JStr ''eip155:1''), (''address'', JStr addr_primary),
           (''uri'', JStr ''wc:example'')]"

abbreviation req_connect_bad_uri :: jsval where
  "req_connect_bad_uri \<equiv>
     JObj [(''network'', JStr ''eip155:1''), (''address'', JStr addr_primary),
           (''uri'', JStr ''example'')]"





section \<open>Lemmas on strings and numerals\<close>

lemma foldl_digits: "foldl (\<lambda>acc c. acc * b + digit_value c) a ds = a * b ^ length ds + unsigned_value b ds"
  by (induction ds arbitrary: a) (simp_all add: algebra_simps)

lemma digits_value_eq: "digits_value b ds = unsigned_value b ds"
  by (simp add: digits_value_def foldl_digits)

lemma trim_id: "s \<noteq> [] \<Longrightarrow> \<not> is_js_space (hd s) \<Longrightarrow> \<not> is_js_space (last s) \<Longrightarrow> trim s = s"
proof -
  assume a: "s \<noteq> []" "\<not> is_js_space (hd s)" "\<not> is_js_space (last s)"
  have 1: "dropWhile is_js_space s = s" using a by (cases s) auto
  have "rev s \<noteq> []" "\<not> is_js_space (hd (rev s))" using a by (simp_all add: hd_rev)
  then have 2: "dropWhile is_js_space (rev s) = rev s" by (cases "rev s") auto
  show ?thesis by (simp add: trim_def 1 2)
qed

lemma hex_not_space: "is_hex_digit c \<Longrightarrow> \<not> is_js_space c"
  by (auto simp: is_hex_digit_def is_js_space_def Let_def)

lemma digit_hex: "is_digit c \<Longrightarrow> is_hex_digit c"
  by (auto simp: is_hex_digit_def is_digit_def Let_def)

lemma digit_value_digit_char: "d < 10 \<Longrightarrow> digit_value (digit_char d) = d"
  by (simp add: digit_value_def digit_char_def Let_def)

lemma is_digit_digit_char: "d < 10 \<Longrightarrow> is_digit (digit_char d)"
  by (simp add: is_digit_def digit_char_def Let_def)

lemma parse_digits_ok: "ds \<noteq> [] \<Longrightarrow> list_all ok ds \<Longrightarrow> parse_digits b ok ds = Some (int (unsigned_value b ds))"
  by (simp add: parse_digits_def digits_value_eq)

lemma js_BigInt_hex:
  assumes "h \<noteq> []" "list_all is_hex_digit h"
  shows "js_BigInt (''0x'' @ h) = Some (int (unsigned_value 16 h))"
proof -
  have "is_hex_digit (last h)" using assms by (simp add: list_all_iff)
  then have l: "\<not> is_js_space (last h)" by (rule hex_not_space)
  have z: "\<not> is_js_space (CHR ''0'')" by (simp add: is_js_space_def)
  have "trim (''0x'' @ h) = ''0x'' @ h"
    using assms(1) l z by (intro trim_id) simp_all
  then show ?thesis using assms by (simp add: js_BigInt_def parse_digits_ok)
qed

lemma digit_neq: "is_digit c \<Longrightarrow> \<not> is_digit d \<Longrightarrow> c \<noteq> d"
  by auto

lemma not_digit_chars:
  "\<not> is_digit (CHR ''+'')" "\<not> is_digit (CHR ''-'')" "\<not> is_digit (CHR '':'')"
  "\<not> is_digit (CHR ''.'')"
  by (simp_all add: is_digit_def)

lemma digit_not_plus: "is_digit c \<Longrightarrow> c \<noteq> CHR ''+''"
  by (erule digit_neq) (rule not_digit_chars)

lemma digit_not_minus: "is_digit c \<Longrightarrow> c \<noteq> CHR ''-''"
  by (erule digit_neq) (rule not_digit_chars)

lemma digit_not_colon: "is_digit c \<Longrightarrow> c \<noteq> CHR '':''"
  by (erule digit_neq) (rule not_digit_chars)

lemma digit_not_point: "is_digit c \<Longrightarrow> c \<noteq> CHR ''.''"
  by (erule digit_neq) (rule not_digit_chars)

lemma digits_no_colon: "list_all is_digit ds \<Longrightarrow> CHR '':'' \<notin> set ds"
proof
  assume "list_all is_digit ds" "CHR '':'' \<in> set ds"
  then have "is_digit (CHR '':'')" by (simp add: list_all_iff)
  then show False by (simp add: not_digit_chars)
qed

lemma take2_ne: "list_all P ds \<Longrightarrow> \<not> list_all P p \<Longrightarrow> take 2 ds \<noteq> p"
proof
  assume a: "list_all P ds" "\<not> list_all P p" and e: "take 2 ds = p"
  from a(1) have "list_all P (take 2 ds)" by (auto simp: list_all_iff dest: in_set_takeD)
  with e a(2) show False by simp
qed

lemma js_BigInt_dec:
  assumes "ds \<noteq> []" "list_all is_digit ds"
  shows "js_BigInt ds = Some (int (unsigned_value 10 ds))"
proof -
  have l: "is_digit (last ds)" "is_digit (hd ds)" using assms by (simp_all add: list_all_iff)
  have l': "\<not> is_js_space (last ds)" "\<not> is_js_space (hd ds)" using l digit_hex hex_not_space by blast+
  have t: "trim ds = ds"
    using assms(1) l' by (intro trim_id) simp_all
  obtain c cs where ds: "ds = c # cs" using assms by (cases ds) auto
  have c: "is_digit c" using assms ds by simp
  have n: "\<not> list_all is_digit ''0x''" "\<not> list_all is_digit ''0X''" "\<not> list_all is_digit ''0o''"
    "\<not> list_all is_digit ''0O''" "\<not> list_all is_digit ''0b''" "\<not> list_all is_digit ''0B''"
    by (simp_all add: is_digit_def)
  have p: "take 2 ds \<noteq> ''0x''" "take 2 ds \<noteq> ''0X''" "take 2 ds \<noteq> ''0o''" "take 2 ds \<noteq> ''0O''"
      "take 2 ds \<noteq> ''0b''" "take 2 ds \<noteq> ''0B''"
    by (rule take2_ne[OF assms(2)], simp add: is_digit_def)+
  have "js_BigInt ds =
     (case ds of
                 c # r \<Rightarrow>
                   if c = CHR ''+'' then parse_digits 10 is_digit r
                   else if c = CHR ''-'' then map_option uminus (parse_digits 10 is_digit r)
                   else parse_digits 10 is_digit ds
               | [] \<Rightarrow> Some 0)"
    using assms(1) p by (simp add: js_BigInt_def t)
  also have "\<dots> = parse_digits 10 is_digit ds"
    using digit_not_plus[OF c] digit_not_minus[OF c] by (simp add: ds)
  finally show ?thesis using assms by (simp add: parse_digits_ok)
qed

lemma js_split_none: "sep \<notin> set r \<Longrightarrow> js_split sep r = [r]"
  by (induction r) auto

lemma js_split_one: "sep \<notin> set a \<Longrightarrow> sep \<notin> set r \<Longrightarrow> js_split sep (a @ sep # r) = [a, r]"
  by (induction a) (auto simp: js_split_none)

lemma ascii_lower_colon: "ascii_lower c = CHR '':'' \<Longrightarrow> c = CHR '':''"
proof (cases "65 \<le> (of_char c :: nat) \<and> (of_char c :: nat) \<le> 90")
  case True
  assume "ascii_lower c = CHR '':''"
  with True have "char_of ((of_char c :: nat) + 32) = CHR '':''" by (simp add: ascii_lower_def Let_def)
  then have "(of_char (char_of ((of_char c :: nat) + 32) :: char) :: nat) = of_char (CHR '':'')" by simp
  then have "((of_char c :: nat) + 32) mod 256 = 58" by (simp only: of_char_of) simp
  with True show ?thesis by simp
next
  case False
  assume "ascii_lower c = CHR '':''"
  with False show ?thesis by (auto simp add: ascii_lower_def Let_def)
qed

lemma length7: "length xs = 7 \<Longrightarrow> \<exists>c0 c1 c2 c3 c4 c5 c6. xs = [c0, c1, c2, c3, c4, c5, c6]"
  by (auto simp: eval_nat_numeral length_Suc_conv)

lemma network_shape:
  assumes "NETWORK_REGEX n"
  shows "\<exists>a ds. n = a @ CHR '':'' # ds \<and> length a = 6 \<and> CHR '':'' \<notin> set a \<and> ds \<noteq> [] \<and> list_all is_digit ds"
proof -
  have m: "map ascii_lower (take 7 n) = ''eip155:''" and d: "drop 7 n \<noteq> []" "list_all is_digit (drop 7 n)"
    using assms by (simp_all add: NETWORK_REGEX_def)
  from m have "length (map ascii_lower (take 7 n)) = 7" by simp
  then have "length (take 7 n) = 7" by (simp only: length_map)
  then obtain c0 c1 c2 c3 c4 c5 c6 where t: "take 7 n = [c0, c1, c2, c3, c4, c5, c6]"
    using length7 by blast
  from m t have l: "ascii_lower c0 = CHR ''e''" "ascii_lower c1 = CHR ''i''" "ascii_lower c2 = CHR ''p''"
    "ascii_lower c3 = CHR ''1''" "ascii_lower c4 = CHR ''5''" "ascii_lower c5 = CHR ''5''" "ascii_lower c6 = CHR '':''"
    by simp_all
  have c6: "c6 = CHR '':''" using l ascii_lower_colon by blast
  have lc: "ascii_lower (CHR '':'') = CHR '':''" by (simp add: ascii_lower_def)
  have nc: "CHR '':'' \<notin> set [c0, c1, c2, c3, c4, c5]"
    using l lc by auto
  have "n = take 7 n @ drop 7 n" by simp
  then have "n = [c0, c1, c2, c3, c4, c5] @ CHR '':'' # drop 7 n" using t c6 by simp
  then show ?thesis using nc d by (intro exI[of _ "[c0, c1, c2, c3, c4, c5]"] exI[of _ "drop 7 n"]) simp
qed

lemma dec_digits_small: "n < 10 \<Longrightarrow> dec_digits n = [digit_char n]"
  by (subst dec_digits.simps) simp

lemma dec_digits_step: "10 \<le> n \<Longrightarrow> dec_digits n = dec_digits (n div 10) @ [digit_char (n mod 10)]"
  by (subst dec_digits.simps) simp

lemma length_last_digits: "length (last_digits k n) = k"
  by (induction k arbitrary: n) simp_all

lemma last_digits_zero: "last_digits k 0 = replicate k (digit_char 0)"
  by (induction k) (simp_all add: replicate_append_same)

lemma last_digits_mod: "last_digits k (n mod 10 ^ k) = last_digits k n"
proof (induction k arbitrary: n)
  case 0
  show ?case by simp
next
  case (Suc k)
  have 1: "n mod 10 ^ Suc k div 10 = (n div 10) mod 10 ^ k"
    by (simp add: mod_mult2_eq)
  have 2: "n mod 10 ^ Suc k mod 10 = n mod 10"
    by (simp add: mod_mult2_eq)
  show ?case by (simp only: last_digits.simps 1 2 Suc.IH)
qed

lemma dec_digits_shift:
  "0 < i \<Longrightarrow> j < 10 ^ k \<Longrightarrow> dec_digits (i * 10 ^ k + j) = dec_digits i @ last_digits k j"
proof (induction k arbitrary: j)
  case 0
  then show ?case by simp
next
  case (Suc k)
  have "1 * 10 ^ Suc k \<le> i * 10 ^ Suc k" using Suc.prems(1) by (intro mult_le_mono1) simp
  moreover have "(10::nat) \<le> 10 ^ Suc k" by simp
  ultimately have ge: "10 \<le> i * 10 ^ Suc k + j" by linarith
  have d: "(i * 10 ^ Suc k + j) div 10 = i * 10 ^ k + j div 10" by simp
  have e: "i * 10 ^ Suc k = 10 * (i * 10 ^ k)" by simp
  have m: "(i * 10 ^ Suc k + j) mod 10 = j mod 10" unfolding e by simp
  have lt: "j div 10 < 10 ^ k" using Suc.prems(2) by (simp add: less_mult_imp_div_less mult.commute)
  show ?case
    by (simp only: dec_digits_step[OF ge] d m Suc.IH[OF Suc.prems(1) lt] last_digits.simps append_assoc)
qed

lemma dec_digits_pad:
  "0 < k \<Longrightarrow> j < 10 ^ k \<Longrightarrow>
     length (dec_digits j) \<le> k \<and>
     replicate (k - length (dec_digits j)) (digit_char 0) @ dec_digits j = last_digits k j"
proof (induction k arbitrary: j)
  case 0
  then show ?case by simp
next
  case (Suc k)
  show ?case
  proof (cases "j < 10")
    case True
    then show ?thesis by (simp add: dec_digits_small last_digits_zero)
  next
    case False
    then have ge: "10 \<le> j" by simp
    have k: "0 < k" using Suc.prems(2) ge by (cases k) simp_all
    have lt: "j div 10 < 10 ^ k" using Suc.prems(2) by (simp add: less_mult_imp_div_less mult.commute)
    from Suc.IH[OF k lt] show ?thesis
      by (simp add: dec_digits_step[OF ge] Suc_diff_le)
  qed
qed

lemma digit_char_0: "digit_char 0 = CHR ''0''"
  unfolding digit_char_def by (rule iffD1[OF of_char_eq_iff[where 'a = nat]]) simp

lemma floor_half: "\<lfloor>(of_nat n :: rat) + 1 / 2\<rfloor> = int n"
  by (simp add: floor_eq_iff)

lemma js_toFixed_nat:
  assumes f: "0 < f"
  shows "js_toFixed f (of_nat n / 10 ^ f) = dec_digits (n div 10 ^ f) @ ''.'' @ last_digits f n"
proof -
  let ?x = "of_nat n / 10 ^ f :: rat"
  have x0: "\<not> ?x < 0" by (simp add: not_less)
  have ab: "\<bar>?x\<bar> = ?x" by simp
  have n: "nat \<lfloor>?x * 10 ^ f + 1 / 2\<rfloor> = n" by (simp add: floor_half)
  have m: "(if n = 0 then ''0'' else dec_digits n) = dec_digits n"
    by (simp add: dec_digits_small digit_char_0)
  show ?thesis
  proof (cases "n < 10 ^ f")
    case True
    from dec_digits_pad[OF f True]
    have le: "length (dec_digits n) \<le> f"
      and pad: "replicate (f - length (dec_digits n)) (digit_char 0) @ dec_digits n = last_digits f n"
      by simp_all
    have r: "replicate (f + 1 - length (dec_digits n)) (CHR ''0'') @ dec_digits n = CHR ''0'' # last_digits f n"
      using le pad by (simp add: Suc_diff_le digit_char_0)
    have d0: "n div 10 ^ f = 0" using True by simp
    show ?thesis
      unfolding js_toFixed_def Let_def ab n m
      using f le x0 by (simp add: pad[unfolded digit_char_0] d0 dec_digits_small digit_char_0)
  next
    case False
    define i where "i = n div 10 ^ f"
    define j where "j = n mod 10 ^ f"
    have i: "0 < i" using False by (simp add: i_def div_greater_zero_iff)
    have j: "j < 10 ^ f" by (simp add: j_def)
    have nij: "n = i * 10 ^ f + j" by (simp only: i_def j_def div_mult_mod_eq)
    have "dec_digits (i * 10 ^ f + j) = dec_digits i @ last_digits f (n mod 10 ^ f)"
      using dec_digits_shift[OF i j] by (simp only: j_def)
    then have dd: "dec_digits n = dec_digits i @ last_digits f n"
      by (simp only: nij[symmetric] last_digits_mod)
    have li: "0 < length (dec_digits i)"
      by (cases "i < 10") (simp_all add: dec_digits_small dec_digits_step)
    have gt: "\<not> length (dec_digits n) \<le> f"
      using li by (simp add: dd length_last_digits)
    have tk: "take (length (dec_digits n) - f) (dec_digits n) = dec_digits i"
      "drop (length (dec_digits n) - f) (dec_digits n) = last_digits f n"
      by (simp_all add: dd length_last_digits)
    show ?thesis
      unfolding js_toFixed_def Let_def ab n m
      using f gt x0 by (simp add: tk i_def)
  qed
qed

lemma unsigned_value_append:
  "unsigned_value b (xs @ ys) = unsigned_value b xs * b ^ length ys + unsigned_value b ys"
  by (induction xs) (simp_all add: power_add algebra_simps)

lemma dec_digits_digits: "list_all is_digit (dec_digits n)"
proof (induction n rule: dec_digits.induct)
  case (1 n)
  show ?case
  proof (cases "n < 10")
    case True
    then show ?thesis by (simp add: dec_digits_small is_digit_digit_char)
  next
    case False
    with 1 show ?thesis by (simp add: dec_digits_step is_digit_digit_char)
  qed
qed

lemma dec_digits_nonempty: "dec_digits n \<noteq> []"
  by (cases "n < 10") (simp_all add: dec_digits_small dec_digits_step)

lemma unsigned_dec_digits: "unsigned_value 10 (dec_digits n) = n"
proof (induction n rule: dec_digits.induct)
  case (1 n)
  show ?case
  proof (cases "n < 10")
    case True
    then show ?thesis by (simp add: dec_digits_small digit_value_digit_char)
  next
    case False
    with 1 show ?thesis
      by (simp add: dec_digits_step unsigned_value_append digit_value_digit_char)
  qed
qed

lemma last_digits_digits: "list_all is_digit (last_digits k n)"
  by (induction k arbitrary: n) (simp_all add: is_digit_digit_char)

lemma unsigned_last_digits: "unsigned_value 10 (last_digits k n) = n mod 10 ^ k"
proof (induction k arbitrary: n)
  case 0
  show ?case by simp
next
  case (Suc k)
  have "n mod 10 ^ Suc k = 10 * ((n div 10) mod 10 ^ k) + n mod 10"
    by (simp add: mod_mult2_eq)
  then show ?case
    by (simp add: unsigned_value_append digit_value_digit_char Suc.IH)
qed

lemma takeWhile_point:
  "list_all is_digit ds \<Longrightarrow> takeWhile (\<lambda>c. c \<noteq> CHR ''.'') (ds @ CHR ''.'' # fs) = ds"
proof (induction ds)
  case Nil
  show ?case by simp
next
  case (Cons d ds)
  then have "d \<noteq> CHR ''.''" using digit_not_point by simp
  with Cons show ?case by simp
qed

lemma read_unsigned_decimal_digits:
  assumes "ip \<noteq> []" "list_all is_digit ip" "fp \<noteq> []" "list_all is_digit fp"
  shows "read_unsigned_decimal (ip @ ''.'' @ fp) =
           Some (of_nat (unsigned_value 10 ip) + of_nat (unsigned_value 10 fp) / 10 ^ length fp)"
  using assms by (simp add: read_unsigned_decimal_def takeWhile_point Let_def)

lemma read_decimal_digits:
  assumes "ip \<noteq> []" "list_all is_digit ip" "fp \<noteq> []" "list_all is_digit fp"
  shows "read_decimal (ip @ ''.'' @ fp) =
           Some (of_nat (unsigned_value 10 ip) + of_nat (unsigned_value 10 fp) / 10 ^ length fp)"
proof -
  obtain c cs where ip: "ip = c # cs" using assms(1) by (cases ip) auto
  then have "is_digit c" using assms(2) by simp
  then have "c \<noteq> CHR ''-''" by (rule digit_not_minus)
  then have "read_decimal (ip @ ''.'' @ fp) = read_unsigned_decimal (ip @ ''.'' @ fp)"
    by (simp add: read_decimal_def ip)
  then show ?thesis using read_unsigned_decimal_digits[OF assms] by simp
qed

lemma address_shape:
  assumes "ADDRESS_REGEX a"
  shows "take 8 (drop 2 a) \<noteq> [] \<and> list_all is_hex_digit (take 8 (drop 2 a))"
proof -
  from assms obtain h where a: "a = CHR ''0'' # CHR ''x'' # h" and h: "length h = 40" "list_all is_hex_digit h"
    by (auto simp: ADDRESS_REGEX_def split: list.splits)
  have "take 8 h \<noteq> []" using h(1) by auto
  moreover have "list_all is_hex_digit (take 8 h)" using h(2) by (auto simp: list_all_iff dest: in_set_takeD)
  ultimately show ?thesis by (simp add: a)
qed

lemma js_rem_nat: "js_rem (int a) (int b) = int (a mod b)"
  by (simp add: js_rem_def zmod_int sgn_if)

lemma computeMockBalance_digits:
  assumes "ADDRESS_REGEX address" "NETWORK_REGEX network"
  shows "computeMockBalance address network =
           Inr (dec_digits (spec_raw address network div 1000) @ ''.'' @
                last_digits 6 (spec_raw address network * 1000))"
proof -
  let ?h = "take 8 (drop 2 address)"
  have a: "js_BigInt (''0x'' @ ?h) = Some (int (unsigned_value 16 ?h))"
    using address_shape[OF assms(1)] by (intro js_BigInt_hex) simp_all
  from network_shape[OF assms(2)] obtain p ds where n: "network = p @ CHR '':'' # ds"
    and p: "CHR '':'' \<notin> set p" and ds: "ds \<noteq> []" "list_all is_digit ds" by blast
  have "CHR '':'' \<notin> set ds" using ds(2) by (rule digits_no_colon)
  then have sp: "js_split (CHR '':'') network = [p, ds]" using p by (simp add: n js_split_one)
  have c: "chain_id network = unsigned_value 10 ds"
    using p by (simp add: chain_id_def n dropWhile_append)
  have b: "js_BigInt ds = Some (int (unsigned_value 10 ds))" using ds by (rule js_BigInt_dec)
  have r: "js_rem (int (unsigned_value 16 ?h) + int (unsigned_value 10 ds)) 500000 = int (spec_raw address network)"
    using js_rem_nat[of "unsigned_value 16 ?h + unsigned_value 10 ds" 500000]
    by (simp add: spec_raw_def c)
  have q: "(of_int (int (spec_raw address network)) :: rat) / 1000 = of_nat (spec_raw address network * 1000) / 10 ^ 6"
    by simp
  have d: "spec_raw address network * 1000 div 10 ^ 6 = spec_raw address network div 1000"
    by simp
  have tf: "js_toFixed 6 (of_nat (spec_raw address network * 1000) / 10 ^ 6) =
      dec_digits (spec_raw address network * 1000 div 10 ^ 6) @ ''.'' @
      last_digits 6 (spec_raw address network * 1000)"
    by (rule js_toFixed_nat) simp
  show ?thesis
    unfolding computeMockBalance_def
    by (simp only: a sp b r q option.case list.case Let_def tf d)
qed

lemma fixed6_thousandths: "fixed6 (of_nat r / 1000) = dec_digits (r div 1000) @ ''.'' @ last_digits 6 (r * 1000)"
proof -
  have 1: "\<lfloor>(of_nat r :: rat) / 1000\<rfloor> = int (r div 1000)"
    using floor_divide_of_nat_eq[of r 1000, where 'a = rat] by simp
  have 2: "(of_nat r :: rat) / 1000 * 10 ^ 6 = of_nat (r * 1000)" by simp
  show ?thesis by (simp only: fixed6_def 1 2 floor_of_nat nat_int)
qed

lemma thousandths_value:
  "(of_nat (r div 1000) :: rat) + of_nat ((r * 1000) mod 10 ^ 6) / 10 ^ 6 = of_nat r / 1000"
proof -
  have m: "(r * 1000) mod 1000000 = (r mod 1000) * 1000"
    using mult_mod_left[of r 1000 1000] by simp
  have "(of_nat r :: rat) = of_nat (1000 * (r div 1000) + r mod 1000)" by simp
  also have "\<dots> = 1000 * of_nat (r div 1000) + of_nat (r mod 1000)"
    by (simp only: of_nat_add of_nat_mult of_nat_numeral)
  finally have "(of_nat r :: rat) / 1000 = of_nat (r div 1000) + of_nat (r mod 1000) / 1000"
    by (simp add: field_simps)
  then show ?thesis by (simp add: m)
qed

lemma computeMockBalance_spec:
  assumes "isValidAddress address" "NETWORK_REGEX network"
  shows "computeMockBalance address network = Inr (spec_balanceEth address network)"
  using computeMockBalance_digits[of address network] assms
  by (simp add: isValidAddress_def spec_balanceEth_def fixed6_thousandths)

text \<open>Evaluation of the digit functions on numerals.\<close>

lemma last_digits_numeral:
  "last_digits (numeral k) n = last_digits (pred_numeral k) (n div 10) @ [digit_char (n mod 10)]"
  by (simp only: numeral_eq_Suc last_digits.simps)

lemma digit_chars:
  "digit_char 0 = CHR ''0''" "digit_char 1 = CHR ''1''" "digit_char 2 = CHR ''2''"
  "digit_char 3 = CHR ''3''" "digit_char 4 = CHR ''4''" "digit_char 5 = CHR ''5''"
  "digit_char 6 = CHR ''6''" "digit_char 7 = CHR ''7''" "digit_char 8 = CHR ''8''"
  "digit_char 9 = CHR ''9''" "digit_char (Suc 0) = CHR ''1''"
  unfolding digit_char_def by (rule iffD1[OF of_char_eq_iff[where 'a = nat]], simp)+

lemma example_spec_raw:
  "spec_raw addr_research ''eip155:1'' = 193139"
  by (simp add: spec_raw_def chain_id_def digit_value_def)

lemma example_spec_balanceEth:
  "spec_balanceEth addr_research ''eip155:1'' = ''193.139000''"
  using fixed6_thousandths[of 193139]
  by (simp add: spec_balanceEth_def example_spec_raw dec_digits.simps last_digits_numeral
        digit_chars)

section \<open>The balance\<close>

text \<open>
  C1. For an address that matches the address pattern and a network name of the form
  \<^verbatim>\<open>eip155:<uint>\<close>, \<open>getBalance\<close> succeeds, leaves the state as it is, and its
  \<open>balanceEth\<close> is the string of the specification: the first 8 hex characters after
  \<^verbatim>\<open>0x\<close> as an unsigned integer, plus the chain id after the colon, modulo 500000,
  divided by 1000, with exactly 6 fractional digits. Hence any two calls on the same
  address and network, in any states and at any times, return the same \<open>balanceEth\<close>.
\<close>

theorem getBalance_balanceEth:
  assumes "isValidAddress address" "NETWORK_REGEX network"
  shows "getBalance state address network stamp =
           (Inr \<lparr>bal_address = address, bal_network = network,
                 balanceEth = spec_balanceEth address network, bal_updatedAt = stamp\<rparr>, state)
         \<and> (\<exists>r r'. fst (getBalance state address network stamp) = Inr r
                \<and> fst (getBalance state' address network stamp') = Inr r'
                \<and> balanceEth r = balanceEth r')"
  using computeMockBalance_spec[OF assms] by (simp add: getBalance_def)

theorem getBalance_balanceEth_witness:
  "isValidAddress addr_research \<and> NETWORK_REGEX ''eip155:1'' \<and>
   getBalance (newDaemonState DEFAULT_CONFIG) addr_research
       ''eip155:1'' time_stamp =
     (Inr \<lparr>bal_address = addr_research,
           bal_network = ''eip155:1'', balanceEth = ''193.139000'',
           bal_updatedAt = time_stamp\<rparr>,
      newDaemonState DEFAULT_CONFIG)"
proof -
  have a: "isValidAddress addr_research" by code_simp
  have n: "NETWORK_REGEX ''eip155:1''" by code_simp
  show ?thesis
    using getBalance_balanceEth[OF a n, of "newDaemonState DEFAULT_CONFIG"
        "time_stamp"] a n
    unfolding example_spec_balanceEth by simp
qed

text \<open>
  C9. For an address that matches the address pattern and a network name of the form
  \<^verbatim>\<open>eip155:<uint>\<close>, the \<open>balanceEth\<close> that \<open>getBalance\<close> returns reads as a
  rational number: the integer before the division, which is reduced modulo 500000, over
  1000. It is at least 0 and strictly below 500.
\<close>

theorem getBalance_range:
  assumes "isValidAddress address" "NETWORK_REGEX network"
  shows "\<exists>r q. fst (getBalance state address network stamp) = Inr r \<and>
            read_decimal (balanceEth r) = Some q \<and>
            q = of_nat (spec_raw address network) / 1000 \<and> 0 \<le> q \<and> q < 500"
proof -
  let ?R = "spec_raw address network"
  let ?s = "dec_digits (?R div 1000) @ ''.'' @ last_digits 6 (?R * 1000)"
  let ?r = "\<lparr>bal_address = address, bal_network = network, balanceEth = ?s,
             bal_updatedAt = stamp\<rparr>"
  have c: "computeMockBalance address network = Inr ?s"
    using assms by (intro computeMockBalance_digits) (simp_all add: isValidAddress_def)
  have l: "last_digits 6 (?R * 1000) \<noteq> []"
    using length_last_digits[of 6 "?R * 1000"] by auto
  have "read_decimal ?s = Some (of_nat (unsigned_value 10 (dec_digits (?R div 1000)))
          + of_nat (unsigned_value 10 (last_digits 6 (?R * 1000)))
            / 10 ^ length (last_digits 6 (?R * 1000)))"
    using dec_digits_nonempty dec_digits_digits l last_digits_digits
    by (rule read_decimal_digits)
  then have rd: "read_decimal (balanceEth ?r) = Some (of_nat ?R / 1000)"
    by (simp only: unsigned_dec_digits unsigned_last_digits length_last_digits
          thousandths_value BalanceResult.simps)
  have "?R < 500000" by (simp add: spec_raw_def)
  then have b: "(of_nat ?R :: rat) / 1000 < 500" "0 \<le> (of_nat ?R :: rat) / 1000" by simp_all
  have g: "fst (getBalance state address network stamp) = Inr ?r"
    using c by (simp add: getBalance_def)
  from g rd b show ?thesis by blast
qed

theorem getBalance_range_witness:
  "isValidAddress addr_research \<and> NETWORK_REGEX ''eip155:1'' \<and>
   (\<exists>r q. fst (getBalance (newDaemonState DEFAULT_CONFIG)
                addr_research ''eip155:1''
                time_stamp) = Inr r \<and>
      read_decimal (balanceEth r) = Some q \<and> q = 193139 / 1000 \<and> 0 \<le> q \<and> q < 500)"
proof -
  have a: "isValidAddress addr_research" by code_simp
  have n: "NETWORK_REGEX ''eip155:1''" by code_simp
  show ?thesis
    using getBalance_range[OF a n, of "newDaemonState DEFAULT_CONFIG"
        "time_stamp"] a n
    unfolding example_spec_raw by simp
qed

section \<open>Transactions: status and rejection\<close>

text \<open>
  C4. For a guid that is not a key of the transaction store, \<open>getTransactionStatus\<close>
  returns a result (it has no error to raise) with the status \<open>UNKNOWN\<close> and the queried
  guid, and leaves the state, hence the transaction store, as it was.
\<close>

theorem getTransactionStatus_unknown:
  assumes "txStore state guid = None"
  shows "getTransactionStatus state guid now stamp =
           (\<lparr>rs_guid = guid, rs_status = UNKNOWN, rs_updatedAt = stamp\<rparr>, state)"
  using assms by (simp add: getTransactionStatus_def)

theorem getTransactionStatus_unknown_witness:
  "txStore (newDaemonState DEFAULT_CONFIG) ''no-such-guid'' = None \<and>
   getTransactionStatus (newDaemonState DEFAULT_CONFIG) ''no-such-guid'' 1700000000000
       time_stamp =
     (\<lparr>rs_guid = ''no-such-guid'', rs_status = UNKNOWN,
       rs_updatedAt = time_stamp\<rparr>, newDaemonState DEFAULT_CONFIG)"
proof -
  have h: "txStore (newDaemonState DEFAULT_CONFIG) ''no-such-guid'' = None"
    by (simp add: newDaemonState_def)
  show ?thesis using getTransactionStatus_unknown[OF h] h by simp
qed

text \<open>An operation that throws leaves the state as it found it.\<close>

lemma connectSession_cases:
  "snd (connectSession state data uuid stamp) = state
   \<or> (\<exists>u. fst (connectSession state data uuid stamp) = Inr u)
      \<and> txStore (snd (connectSession state data uuid stamp)) = txStore state
      \<and> config (snd (connectSession state data uuid stamp)) = config state"
  by (simp add: connectSession_def Let_def split: option.splits)

lemma switchSession_cases:
  "snd (switchSession state data) = state
   \<or> (\<exists>u. fst (switchSession state data) = Inr u)
      \<and> txStore (snd (switchSession state data)) = txStore state
      \<and> config (snd (switchSession state data)) = config state"
  by (simp add: switchSession_def Let_def split: option.splits)

lemma disconnectSession_cases:
  "snd (disconnectSession state data) = state
   \<or> (\<exists>u. fst (disconnectSession state data) = Inr u)
      \<and> txStore (snd (disconnectSession state data)) = txStore state
      \<and> config (snd (disconnectSession state data)) = config state"
  by (simp add: disconnectSession_def Let_def split: option.splits)

lemma createTransaction_error: "fst (createTransaction state payload uuid now) = Inl e \<Longrightarrow>
   snd (createTransaction state payload uuid now) = state"
  by (simp add: createTransaction_def Let_def split: sum.splits)

lemma connectSession_error: "fst (connectSession state data uuid stamp) = Inl e \<Longrightarrow>
   snd (connectSession state data uuid stamp) = state"
  using connectSession_cases[of state data uuid stamp] by auto

lemma switchSession_error: "fst (switchSession state data) = Inl e \<Longrightarrow>
   snd (switchSession state data) = state"
  using switchSession_cases[of state data] by auto

lemma disconnectSession_error: "fst (disconnectSession state data) = Inl e \<Longrightarrow>
   snd (disconnectSession state data) = state"
  using disconnectSession_cases[of state data] by auto

lemma example_createTransaction_rejected: "fst (createTransaction (newDaemonState DEFAULT_CONFIG)
           payload_bad_from
           uuid_a 1700000000000)
         = Inl (Error ''from must be a valid hex address.'')"
  by code_simp

lemma example_connectSession_rejected: "fst (connectSession (newDaemonState DEFAULT_CONFIG)
           req_connect_bad_uri
           uuid_a time_stamp)
         = Inl (Error ''network, address, and uri must be provided for WalletConnect.'')"
  by code_simp

lemma example_switchSession_rejected: "fst (switchSession (newDaemonState DEFAULT_CONFIG)
           (JObj [(''session'', JStr uuid_b)]))
         = Inl SESSION_NOT_FOUND"
  by code_simp

lemma example_disconnectSession_rejected: "fst (disconnectSession (newDaemonState DEFAULT_CONFIG)
           (JObj [(''session'', JStr uuid_b)]))
         = Inl SESSION_NOT_FOUND"
  by code_simp

text \<open>
  C2. Whenever \<open>createTransaction\<close>, \<open>connectSession\<close>, \<open>switchSession\<close> or
  \<open>disconnectSession\<close> raises an error, the state after the call, with its transaction
  store and its session store, is the state before the call.
\<close>

theorem rejection_leaves_state:
  "(fst (createTransaction state payload uuid now) = Inl e1 \<longrightarrow>
      snd (createTransaction state payload uuid now) = state)
   \<and> (fst (connectSession state data uuid stamp) = Inl e2 \<longrightarrow>
      snd (connectSession state data uuid stamp) = state)
   \<and> (fst (switchSession state data) = Inl e3 \<longrightarrow> snd (switchSession state data) = state)
   \<and> (fst (disconnectSession state data) = Inl e4 \<longrightarrow> snd (disconnectSession state data) = state)"
  using createTransaction_error connectSession_error switchSession_error disconnectSession_error
  by blast

theorem rejection_leaves_state_witness:
  "fst (createTransaction (newDaemonState DEFAULT_CONFIG)
           payload_bad_from
           uuid_a 1700000000000)
         = Inl (Error ''from must be a valid hex address.'')
   \<and> snd (createTransaction (newDaemonState DEFAULT_CONFIG)
           payload_bad_from
           uuid_a 1700000000000)
         = newDaemonState DEFAULT_CONFIG
   \<and> fst (connectSession (newDaemonState DEFAULT_CONFIG)
           req_connect_bad_uri
           uuid_a time_stamp)
         = Inl (Error ''network, address, and uri must be provided for WalletConnect.'')
   \<and> snd (connectSession (newDaemonState DEFAULT_CONFIG)
           req_connect_bad_uri
           uuid_a time_stamp)
         = newDaemonState DEFAULT_CONFIG
   \<and> fst (switchSession (newDaemonState DEFAULT_CONFIG)
           (JObj [(''session'', JStr uuid_b)]))
         = Inl SESSION_NOT_FOUND
   \<and> snd (switchSession (newDaemonState DEFAULT_CONFIG)
           (JObj [(''session'', JStr uuid_b)]))
         = newDaemonState DEFAULT_CONFIG
   \<and> fst (disconnectSession (newDaemonState DEFAULT_CONFIG)
           (JObj [(''session'', JStr uuid_b)]))
         = Inl SESSION_NOT_FOUND
   \<and> snd (disconnectSession (newDaemonState DEFAULT_CONFIG)
           (JObj [(''session'', JStr uuid_b)]))
         = newDaemonState DEFAULT_CONFIG"
  using rejection_leaves_state[where state = "newDaemonState DEFAULT_CONFIG"
      and payload = "payload_bad_from"
      and uuid = "uuid_a" and now = 1700000000000
      and ?e1.0 = "Error ''from must be a valid hex address.''"
      and data = "req_connect_bad_uri"
      and stamp = "time_stamp"
      and ?e2.0 = "Error ''network, address, and uri must be provided for WalletConnect.''"]
    rejection_leaves_state[where state = "newDaemonState DEFAULT_CONFIG"
      and data = "JObj [(''session'', JStr uuid_b)]"
      and ?e3.0 = SESSION_NOT_FOUND and ?e4.0 = SESSION_NOT_FOUND]
    example_createTransaction_rejected example_connectSession_rejected
    example_switchSession_rejected example_disconnectSession_rejected
  by blast

text \<open>The session operations do not touch the transaction store.\<close>

lemma txStore_connectSession: "txStore (snd (connectSession state data uuid stamp)) = txStore state"
  using connectSession_cases[of state data uuid stamp] by auto

lemma txStore_switchSession: "txStore (snd (switchSession state data)) = txStore state"
  using switchSession_cases[of state data] by auto

lemma txStore_disconnectSession: "txStore (snd (disconnectSession state data)) = txStore state"
  using disconnectSession_cases[of state data] by auto

lemma txStore_createTransaction:
  "uuid \<noteq> g \<Longrightarrow> txStore (snd (createTransaction state payload uuid now)) g = txStore state g"
  by (simp add: createTransaction_def Let_def split: sum.splits)

lemma txStore_getTransactionStatus_confirmed:
  "txStore state g = Some c \<Longrightarrow> tx_status c = CONFIRMED \<Longrightarrow>
     txStore (snd (getTransactionStatus state guid' now stamp)) g = Some c"
  by (auto simp add: getTransactionStatus_def Let_def split: option.splits)

text \<open>
  C3. A stored record that is \<open>PENDING\<close> is flipped to \<open>CONFIRMED\<close> by
  \<open>getTransactionStatus\<close> exactly when the time since its \<open>createdAt\<close> exceeds 5000
  milliseconds, and is left as it is otherwise. A stored record that is \<open>CONFIRMED\<close> stays
  the same record under every operation: under \<open>getTransactionStatus\<close> on any guid, under
  \<open>createTransaction\<close> when \<^verbatim>\<open>randomUUID()\<close> returns a guid that is not yet in the store,
  and under the three session operations.
\<close>

theorem transaction_status_monotone:
  "(txStore state guid = Some r \<and> tx_status r = PENDING \<longrightarrow>
      getTransactionStatus state guid now stamp =
        (if now - tx_createdAt r > 5000
         then (\<lparr>rs_guid = guid, rs_status = Stored CONFIRMED, rs_updatedAt = stamp\<rparr>,
               state\<lparr>txStore := (txStore state)(guid \<mapsto> r\<lparr>tx_status := CONFIRMED\<rparr>)\<rparr>)
         else (\<lparr>rs_guid = guid, rs_status = Stored PENDING, rs_updatedAt = stamp\<rparr>, state)))
   \<and> (txStore state g = Some c \<and> tx_status c = CONFIRMED \<and> uuid \<notin> dom (txStore state) \<longrightarrow>
        txStore (snd (getTransactionStatus state guid' now stamp)) g = Some c
      \<and> txStore (snd (createTransaction state payload uuid now)) g = Some c
      \<and> txStore (snd (connectSession state data uuid' stamp)) g = Some c
      \<and> txStore (snd (switchSession state data)) g = Some c
      \<and> txStore (snd (disconnectSession state data)) g = Some c)"
proof (intro conjI impI)
  assume "txStore state guid = Some r \<and> tx_status r = PENDING"
  then show "getTransactionStatus state guid now stamp =
        (if now - tx_createdAt r > 5000
         then (\<lparr>rs_guid = guid, rs_status = Stored CONFIRMED, rs_updatedAt = stamp\<rparr>,
               state\<lparr>txStore := (txStore state)(guid \<mapsto> r\<lparr>tx_status := CONFIRMED\<rparr>)\<rparr>)
         else (\<lparr>rs_guid = guid, rs_status = Stored PENDING, rs_updatedAt = stamp\<rparr>, state))"
    by (simp add: getTransactionStatus_def CONFIRM_DELAY_MS_def Let_def)
next
  assume a: "txStore state g = Some c \<and> tx_status c = CONFIRMED \<and> uuid \<notin> dom (txStore state)"
  then have ne: "uuid \<noteq> g" by auto
  from a show "txStore (snd (getTransactionStatus state guid' now stamp)) g = Some c"
    by (simp add: txStore_getTransactionStatus_confirmed)
  from a show "txStore (snd (createTransaction state payload uuid now)) g = Some c"
    by (simp add: txStore_createTransaction[OF ne])
  from a show "txStore (snd (connectSession state data uuid' stamp)) g = Some c"
    by (simp add: txStore_connectSession)
  from a show "txStore (snd (switchSession state data)) g = Some c"
    by (simp add: txStore_switchSession)
  from a show "txStore (snd (disconnectSession state data)) g = Some c"
    by (simp add: txStore_disconnectSession)
qed

theorem transaction_status_monotone_witness:
  "txStore state_tx ''tx-1'' = Some tx_pending
   \<and> tx_status tx_pending = PENDING
   \<and> getTransactionStatus state_tx ''tx-1'' 6001 time_stamp =
       (\<lparr>rs_guid = ''tx-1'', rs_status = Stored CONFIRMED, rs_updatedAt = time_stamp\<rparr>,
        state_tx\<lparr>txStore := (txStore state_tx)(''tx-1'' \<mapsto> tx_flipped)\<rparr>)
   \<and> getTransactionStatus state_tx ''tx-1'' 6000 time_stamp =
       (\<lparr>rs_guid = ''tx-1'', rs_status = Stored PENDING, rs_updatedAt = time_stamp\<rparr>, state_tx)
   \<and> txStore state_tx ''tx-2'' = Some tx_confirmed
   \<and> tx_status tx_confirmed = CONFIRMED
   \<and> ''tx-3'' \<notin> dom (txStore state_tx)
   \<and> txStore (snd (getTransactionStatus state_tx ''tx-2'' 6001 time_stamp)) ''tx-2'' = Some tx_confirmed
   \<and> txStore (snd (createTransaction state_tx payload_ok ''tx-3'' 6001)) ''tx-2'' = Some tx_confirmed
   \<and> txStore (snd (connectSession state_tx req_session uuid_b time_stamp)) ''tx-2'' = Some tx_confirmed
   \<and> txStore (snd (switchSession state_tx req_session)) ''tx-2'' = Some tx_confirmed
   \<and> txStore (snd (disconnectSession state_tx req_session)) ''tx-2'' = Some tx_confirmed"
  using transaction_status_monotone[where state = "state_tx"
      and guid = "''tx-1''" and r = "tx_pending" and now = 6001 and stamp = "time_stamp"
      and g = "''tx-2''" and c = "tx_confirmed" and uuid = "''tx-3''" and guid' = "''tx-2''"
      and payload = "payload_ok" and data = "req_session" and uuid' = "uuid_b"]
    transaction_status_monotone[where state = "state_tx"
      and guid = "''tx-1''" and r = "tx_pending" and now = 6000 and stamp = "time_stamp"
      and g = "''tx-2''" and c = "tx_confirmed" and uuid = "''tx-3''" and guid' = "''tx-2''"
      and payload = "payload_ok" and data = "req_session" and uuid' = "uuid_b"]
  by (simp add: dom_def)

section \<open>Sessions\<close>

text \<open>The configurations that \<open>loadConfig\<close> returns hold only names that match the pattern.\<close>

lemma loadNetwork_name: "loadNetwork net = Inr n \<Longrightarrow> NETWORK_NAME_PATTERN (name n)"
  by (auto simp add: loadNetwork_def Let_def split: if_splits option.splits)

lemma map_throwing_all:
  "map_throwing f xs = Inr ys \<Longrightarrow> (\<And>x y. f x = Inr y \<Longrightarrow> P y) \<Longrightarrow> list_all P ys"
  by (induction xs arbitrary: ys) (auto split: sum.splits)

lemma DEFAULT_CONFIG_names_ok: "config_names_ok DEFAULT_CONFIG"
  by code_simp

lemma loadConfig_names_ok: "loadConfig configPath found = Inr cfg \<Longrightarrow> config_names_ok cfg"
proof (cases found)
  case Missing
  assume "loadConfig configPath found = Inr cfg"
  with Missing show ?thesis by (simp add: loadConfig_def DEFAULT_CONFIG_names_ok)
next
  case (Unparsable msg)
  assume "loadConfig configPath found = Inr cfg"
  with Unparsable show ?thesis by (simp add: loadConfig_def)
next
  case (Parsed parsed)
  assume "loadConfig configPath found = Inr cfg"
  with Parsed obtain nets where "map_throwing loadNetwork nets = Inr (networks cfg)"
    by (auto simp add: loadConfig_def split: jsval.splits sum.splits if_splits)
  then show ?thesis unfolding config_names_ok_def
    by (rule map_throwing_all) (rule loadNetwork_name)
qed

text \<open>The requests and states of the examples below.\<close>

lemma example_address_valid:
  "isValidAddress addr_primary"
  "isValidAddress addr_vault"
  "\<not> isValidAddress ''0x12''"
  by code_simp+

lemma example_session_named:
  "requested_text req_session ''session'' = Some uuid_a"
  "requested_text req_switch ''session'' = Some uuid_a"
  "requested_text req_switch_bad_address ''session'' = Some uuid_a"
  "requested_text req_switch_unknown_network ''session'' = Some uuid_a"
  by code_simp+

lemma example_network_named:
  "requested_text req_switch_unknown_network ''network'' = Some ''eip155:5''"
  "requested_text req_connect ''network'' = Some ''eip155:1''"
  "requested_text req_connect_bad_uri ''network'' = Some ''eip155:1''"
  by code_simp+


lemma example_uri_prefix:
  "startsWith ''wc:example'' ''wc:''"
  "\<not> startsWith ''example'' ''wc:''"
  by code_simp+

lemma example_known_network:
  "isKnownNetwork state_a ''eip155:1''"
  "\<not> isKnownNetwork state_a ''eip155:5''"
  "isKnownNetwork (newDaemonState DEFAULT_CONFIG) ''eip155:1''"
  by code_simp+

lemma coalesce_truthy: "js_truthy v \<Longrightarrow> coalesce v d = v"
  by (cases v) (simp_all add: coalesce_def nullish_def)

lemma disconnectSession_unknown:
  assumes "\<not> nullish data" "requested_text data ''session'' = Some sid" "sessions state sid = None"
  shows "disconnectSession state data = (Inl SESSION_NOT_FOUND, state)"
  using assms by (auto simp add: disconnectSession_def requested_text_def Let_def split: option.splits)

lemma disconnectSession_known:
  assumes "\<not> nullish data" "requested_text data ''session'' = Some sid" "sid \<noteq> []"
    "sessions state sid = Some existing"
  shows "disconnectSession state data =
           (Inr (existing\<lparr>wc_status := DISCONNECTED\<rparr>),
            state\<lparr>sessions := (sessions state)(sid \<mapsto> existing\<lparr>wc_status := DISCONNECTED\<rparr>)\<rparr>)"
  using assms by (auto simp add: disconnectSession_def requested_text_def Let_def split: option.splits)

text \<open>
  C7. Let a disconnect request name the session id \<open>sid\<close> (the trimmed text of its member
  \<^verbatim>\<open>session\<close>). If \<open>sid\<close> is not in the session store, \<open>disconnectSession\<close> raises the
  not-found error and leaves the state. If \<open>sid\<close> is a stored id (ids are identifiers from
  \<^verbatim>\<open>randomUUID()\<close>, never empty), it returns the stored session with the status
  \<open>DISCONNECTED\<close> and stores it under \<open>sid\<close>; a second call right after succeeds too, returns
  the same session and leaves the state that the first call produced.
\<close>

theorem disconnectSession_idempotent:
  assumes "\<not> nullish data" "requested_text data ''session'' = Some sid"
  shows "(sessions state sid = None \<longrightarrow> disconnectSession state data = (Inl SESSION_NOT_FOUND, state))
       \<and> (sid \<noteq> [] \<and> sessions state sid = Some existing \<longrightarrow>
            disconnectSession state data =
              (Inr (existing\<lparr>wc_status := DISCONNECTED\<rparr>),
               state\<lparr>sessions := (sessions state)(sid \<mapsto> existing\<lparr>wc_status := DISCONNECTED\<rparr>)\<rparr>)
          \<and> disconnectSession (snd (disconnectSession state data)) data =
              (Inr (existing\<lparr>wc_status := DISCONNECTED\<rparr>), snd (disconnectSession state data)))"
proof (intro conjI impI)
  assume "sessions state sid = None"
  with assms show "disconnectSession state data = (Inl SESSION_NOT_FOUND, state)"
    by (rule disconnectSession_unknown)
next
  assume a: "sid \<noteq> [] \<and> sessions state sid = Some existing"
  let ?d = "existing\<lparr>wc_status := DISCONNECTED\<rparr>"
  let ?s = "state\<lparr>sessions := (sessions state)(sid \<mapsto> ?d)\<rparr>"
  from a have 1: "disconnectSession state data = (Inr ?d, ?s)"
    using disconnectSession_known[OF assms] by simp
  then show "disconnectSession state data = (Inr ?d, ?s)" .
  have "sessions ?s sid = Some ?d" by simp
  with a have "disconnectSession ?s data = (Inr (?d\<lparr>wc_status := DISCONNECTED\<rparr>),
      ?s\<lparr>sessions := (sessions ?s)(sid \<mapsto> ?d\<lparr>wc_status := DISCONNECTED\<rparr>)\<rparr>)"
    using disconnectSession_known[OF assms, of ?s ?d] by simp
  then show "disconnectSession (snd (disconnectSession state data)) data =
      (Inr ?d, snd (disconnectSession state data))"
    by (simp add: 1)
qed

theorem disconnectSession_idempotent_witness:
  "\<not> nullish req_session
   \<and> requested_text req_session ''session'' = Some uuid_a
   \<and> sessions (newDaemonState DEFAULT_CONFIG) uuid_a = None
   \<and> disconnectSession (newDaemonState DEFAULT_CONFIG) req_session = (Inl SESSION_NOT_FOUND, (newDaemonState DEFAULT_CONFIG))
   \<and> uuid_a \<noteq> []
   \<and> sessions state_a uuid_a = Some session_a
   \<and> disconnectSession state_a req_session =
       (Inr (session_a\<lparr>wc_status := DISCONNECTED\<rparr>),
        state_a\<lparr>sessions := (sessions state_a)(uuid_a \<mapsto> session_a\<lparr>wc_status := DISCONNECTED\<rparr>)\<rparr>)
   \<and> disconnectSession (snd (disconnectSession state_a req_session)) req_session =
       (Inr (session_a\<lparr>wc_status := DISCONNECTED\<rparr>), snd (disconnectSession state_a req_session))"
proof -
  have n: "\<not> nullish req_session" by (simp add: nullish_def)
  have a: "sessions (newDaemonState DEFAULT_CONFIG) uuid_a = None" by (simp add: newDaemonState_def)
  have b: "uuid_a \<noteq> [] \<and> sessions state_a uuid_a = Some session_a" by simp
  note t0 = disconnectSession_idempotent[OF n example_session_named(1), where state = "(newDaemonState DEFAULT_CONFIG)"]
  note t1 = disconnectSession_idempotent[OF n example_session_named(1), where state = "state_a"
      and existing = "session_a"]
  note c0 = t0[THEN conjunct1, THEN mp, OF a]
  note c1 = t1[THEN conjunct2, THEN mp, OF b]
  show ?thesis
    by (intro conjI) (rule n example_session_named(1) a c0 b[THEN conjunct1] b[THEN conjunct2]
        c1[THEN conjunct1] c1[THEN conjunct2])+
qed

lemma switchSession_result:
  assumes "\<not> nullish data" "requested_text data ''session'' = Some sid" "sid \<noteq> []"
    "sessions state sid = Some existing"
  shows "switchSession state data =
     (case (if js_truthy (js_get data ''network'')
            then requested_text data ''network'' else Some (wc_network existing)) of
        None \<Rightarrow> (Inl TypeError, state)
      | Some nextNetwork \<Rightarrow>
          if js_truthy (js_get data ''address'')
             \<and> \<not> isValidAddress (normalizeAddress (js_get data ''address''))
          then (Inl (Error ''address must be a valid hex string.''), state)
          else if js_truthy (js_get data ''network'') \<and> \<not> isKnownNetwork state nextNetwork
          then (Inl (Error (''Unknown network '' @ nextNetwork @ ''.'')), state)
          else (Inr (existing\<lparr>wc_address :=
                        (if js_truthy (js_get data ''address'')
                         then normalizeAddress (js_get data ''address'')
                         else wc_address existing),
                      wc_network := nextNetwork\<rparr>),
                state\<lparr>sessions := (sessions state)(sid \<mapsto>
                   existing\<lparr>wc_address :=
                        (if js_truthy (js_get data ''address'')
                         then normalizeAddress (js_get data ''address'')
                         else wc_address existing),
                      wc_network := nextNetwork\<rparr>)\<rparr>))"
proof -
  from assms(2) obtain ss where ss: "js_String (coalesce (js_get data ''session'') (JStr [])) = Some ss"
    and sid: "sid = trim ss" by (auto simp: requested_text_def)
  have n: "js_truthy (js_get data ''network'') \<Longrightarrow>
      map_option trim (js_String (js_get data ''network'')) = requested_text data ''network''"
    by (simp add: requested_text_def coalesce_truthy)
  show ?thesis
    using assms(1,3,4) n unfolding switchSession_def
    by (simp add: ss sid[symmetric] Let_def split: option.splits)
qed

text \<open>
  C6. Let a switch request name a stored session id \<open>sid\<close>. An address that is given
  (truthy) and, once trimmed, not a valid address makes \<open>switchSession\<close> raise an error and
  leave the state; so does a network that is given and, once trimmed, not a loaded network.
  Otherwise the call succeeds: the session it returns is the one it stores under \<open>sid\<close>, a
  given address or network is the new one and an omitted one is retained, and the id, the
  status, the uri and the connection time are those of the session before the switch.
\<close>

theorem switchSession_frame:
  assumes "\<not> nullish data" "requested_text data ''session'' = Some sid" "sid \<noteq> []"
    "sessions state sid = Some existing"
  shows
   "(js_truthy (js_get data ''address'')
       \<and> \<not> isValidAddress (normalizeAddress (js_get data ''address''))
     \<longrightarrow> (\<exists>e. switchSession state data = (Inl e, state)))
    \<and> (js_truthy (js_get data ''network'')
       \<and> \<not> (\<exists>n. requested_text data ''network'' = Some n \<and> isKnownNetwork state n)
     \<longrightarrow> (\<exists>e. switchSession state data = (Inl e, state)))
    \<and> ((js_truthy (js_get data ''address'')
           \<longrightarrow> isValidAddress (normalizeAddress (js_get data ''address'')))
       \<and> (js_truthy (js_get data ''network'')
           \<longrightarrow> (\<exists>n. requested_text data ''network'' = Some n \<and> isKnownNetwork state n))
     \<longrightarrow> (\<exists>updated.
            switchSession state data =
              (Inr updated, state\<lparr>sessions := (sessions state)(sid \<mapsto> updated)\<rparr>)
          \<and> wc_address updated =
              (if js_truthy (js_get data ''address'')
               then normalizeAddress (js_get data ''address'') else wc_address existing)
          \<and> (if js_truthy (js_get data ''network'')
               then requested_text data ''network'' = Some (wc_network updated)
               else wc_network updated = wc_network existing)
          \<and> wc_id updated = wc_id existing \<and> wc_status updated = wc_status existing
          \<and> wc_uri updated = wc_uri existing
          \<and> wc_connectedAt updated = wc_connectedAt existing))"
  unfolding switchSession_result[OF assms]
  by (auto split: option.splits)

theorem switchSession_frame_witness:
  "\<not> nullish req_switch_bad_address \<and> \<not> nullish req_switch_unknown_network \<and> \<not> nullish req_switch
   \<and> requested_text req_switch_bad_address ''session'' = Some uuid_a
   \<and> requested_text req_switch_unknown_network ''session'' = Some uuid_a
   \<and> requested_text req_switch ''session'' = Some uuid_a
   \<and> uuid_a \<noteq> []
   \<and> sessions state_a uuid_a = Some session_a
   \<and> js_truthy (js_get req_switch_bad_address ''address'')
   \<and> \<not> isValidAddress (normalizeAddress (js_get req_switch_bad_address ''address''))
   \<and> (\<exists>e. switchSession state_a req_switch_bad_address = (Inl e, state_a))
   \<and> js_truthy (js_get req_switch_unknown_network ''network'')
   \<and> requested_text req_switch_unknown_network ''network'' = Some ''eip155:5''
   \<and> \<not> isKnownNetwork state_a ''eip155:5''
   \<and> (\<exists>e. switchSession state_a req_switch_unknown_network = (Inl e, state_a))
   \<and> js_truthy (js_get req_switch ''address'')
   \<and> isValidAddress (normalizeAddress (js_get req_switch ''address''))
   \<and> \<not> js_truthy (js_get req_switch ''network'')
   \<and> (\<exists>updated.
          switchSession state_a req_switch =
            (Inr updated, state_a\<lparr>sessions := (sessions state_a)(uuid_a \<mapsto> updated)\<rparr>)
        \<and> wc_address updated = addr_vault
        \<and> wc_network updated = ''eip155:1''
        \<and> wc_id updated = uuid_a \<and> wc_status updated = CONNECTED
        \<and> wc_uri updated = ''wc:example''
        \<and> wc_connectedAt updated = time_stamp)"
proof -
  have n: "\<not> nullish req_switch_bad_address" "\<not> nullish req_switch_unknown_network" "\<not> nullish req_switch"
    by (simp_all add: nullish_def)
  have u: "uuid_a \<noteq> []" by simp
  have s: "sessions state_a uuid_a = Some session_a" by simp
  have tr: "js_get req_switch_bad_address ''address'' = JStr ''0x12''"
    "js_get req_switch_unknown_network ''network'' = JStr ''eip155:5''" "js_get req_switch_unknown_network ''address'' = JUndefined"
    "js_get req_switch ''address'' = JStr addr_vault" "js_get req_switch ''network'' = JUndefined"
    by simp_all
  have tm: "trim ''0x12'' = ''0x12''" "trim addr_vault = addr_vault"
    by code_simp+
  have h1: "js_truthy (js_get req_switch_bad_address ''address'')
       \<and> \<not> isValidAddress (normalizeAddress (js_get req_switch_bad_address ''address''))"
    unfolding tr using example_address_valid(3) by (simp add: tm)
  have h2: "js_truthy (js_get req_switch_unknown_network ''network'')
       \<and> \<not> (\<exists>n. requested_text req_switch_unknown_network ''network'' = Some n \<and> isKnownNetwork state_a n)"
    unfolding tr example_network_named(1) using example_known_network(2) by simp
  have g: "js_truthy (js_get req_switch ''address'')"
    "isValidAddress (normalizeAddress (js_get req_switch ''address''))"
    "\<not> js_truthy (js_get req_switch ''network'')"
    unfolding tr using example_address_valid(2) by (simp_all add: tm)
  have h3: "(js_truthy (js_get req_switch ''address'')
           \<longrightarrow> isValidAddress (normalizeAddress (js_get req_switch ''address'')))
       \<and> (js_truthy (js_get req_switch ''network'')
           \<longrightarrow> (\<exists>n. requested_text req_switch ''network'' = Some n \<and> isKnownNetwork state_a n))"
    using g by simp
  note t1 = switchSession_frame[OF n(1) example_session_named(3) u s]
  note t2 = switchSession_frame[OF n(2) example_session_named(4) u s]
  note t3 = switchSession_frame[OF n(3) example_session_named(2) u s]
  note c1 = t1[THEN conjunct1, THEN mp, OF h1]
  note c2 = t2[THEN conjunct2, THEN conjunct1, THEN mp, OF h2]
  note c3 = t3[THEN conjunct2, THEN conjunct2, THEN mp, OF h3]
  have c3': "\<exists>updated.
          switchSession state_a req_switch =
            (Inr updated, state_a\<lparr>sessions := (sessions state_a)(uuid_a \<mapsto> updated)\<rparr>)
        \<and> wc_address updated = addr_vault
        \<and> wc_network updated = ''eip155:1''
        \<and> wc_id updated = uuid_a \<and> wc_status updated = CONNECTED
        \<and> wc_uri updated = ''wc:example''
        \<and> wc_connectedAt updated = time_stamp"
    using c3 unfolding tr by (simp add: tm)
  show ?thesis
    by (intro conjI) (rule n example_session_named u s h1[THEN conjunct1] h1[THEN conjunct2]
        example_network_named(1) example_known_network(2) h2[THEN conjunct1] g c1 c2 c3')+
qed









lemma config_connectSession: "config (snd (connectSession state data uuid stamp)) = config state"
  using connectSession_cases[of state data uuid stamp] by auto

lemma config_switchSession: "config (snd (switchSession state data)) = config state"
  using switchSession_cases[of state data] by auto

lemma config_disconnectSession: "config (snd (disconnectSession state data)) = config state"
  using disconnectSession_cases[of state data] by auto

lemma isKnownNetwork_config: "config s' = config s \<Longrightarrow> isKnownNetwork s' = isKnownNetwork s"
  by (simp add: isKnownNetwork_def fun_eq_iff)

text \<open>
  C10. If every entry of the session store is stored under its own id and has a valid
  address, a loaded network and a uri that starts with \<^verbatim>\<open>wc:\<close>, then the same holds of
  the store after \<open>connectSession\<close>, after \<open>switchSession\<close> and after
  \<open>disconnectSession\<close>, on any request.
\<close>

theorem session_store_invariant:
  assumes "session_store_ok state"
  shows "session_store_ok (snd (connectSession state data uuid stamp))
       \<and> session_store_ok (snd (switchSession state data))
       \<and> session_store_ok (snd (disconnectSession state data))"
proof (intro conjI)
  have k: "isKnownNetwork (snd (connectSession state data uuid stamp)) = isKnownNetwork state"
    by (intro isKnownNetwork_config config_connectSession)
  show "session_store_ok (snd (connectSession state data uuid stamp))"
    unfolding session_store_ok_def k using assms[unfolded session_store_ok_def]
    by (auto simp add: connectSession_def Let_def split: if_splits option.splits)
next
  have k: "isKnownNetwork (snd (switchSession state data)) = isKnownNetwork state"
    by (intro isKnownNetwork_config config_switchSession)
  show "session_store_ok (snd (switchSession state data))"
    unfolding session_store_ok_def k using assms[unfolded session_store_ok_def]
    by (auto simp add: switchSession_def Let_def split: if_splits option.splits)
next
  have k: "isKnownNetwork (snd (disconnectSession state data)) = isKnownNetwork state"
    by (intro isKnownNetwork_config config_disconnectSession)
  show "session_store_ok (snd (disconnectSession state data))"
    unfolding session_store_ok_def k using assms[unfolded session_store_ok_def]
    by (auto simp add: disconnectSession_def Let_def split: if_splits option.splits)
qed

theorem session_store_invariant_witness:
  "session_store_ok state_a
   \<and> session_store_ok (snd (connectSession state_a req_connect uuid_b time_stamp))
   \<and> session_store_ok (snd (switchSession state_a req_switch))
   \<and> session_store_ok (snd (disconnectSession state_a req_session))"
proof -
  have h: "session_store_ok state_a"
    unfolding session_store_ok_def
    using example_address_valid(1) example_known_network(1) example_uri_prefix(1)
    by (auto split: if_splits)
  note t = session_store_invariant[OF h, where data = "req_connect" and uuid = "uuid_b" and stamp = "time_stamp"]
  note t2 = session_store_invariant[OF h, where data = "req_switch"]
  note t3 = session_store_invariant[OF h, where data = "req_session"]
  show ?thesis
    by (intro conjI) (rule h t[THEN conjunct1] t2[THEN conjunct2, THEN conjunct1]
        t3[THEN conjunct2, THEN conjunct2])+
qed

section \<open>Validation of a transaction payload\<close>

text \<open>
  What \<open>validateTransactionPayload\<close> accepts, check by check: the payload is an object; its
  network, trimmed, matches the pattern and is loaded; its \<^verbatim>\<open>from\<close>, trimmed, is a valid
  address; \<^verbatim>\<open>to\<close> and \<^verbatim>\<open>contract\<close> are valid addresses when they are truthy and not
  empty once normalised; \<^verbatim>\<open>nonce\<close> is undefined or a finite number that is not negative;
  \<^verbatim>\<open>value\<close> is undefined or a string; \<^verbatim>\<open>data\<close>, when truthy, converts to a string that
  matches the hex pattern; \<^verbatim>\<open>gasPrice\<close>, when truthy, is a string.
\<close>

lemma nonce_ok_iff:
  "(v \<noteq> JUndefined \<and> (case v of JNum n \<Rightarrow> \<not> js_isFinite n \<or> js_negative n | _ \<Rightarrow> True))
     \<longleftrightarrow> \<not> (v = JUndefined \<or> (\<exists>q t. v = JNum (Fin q t) \<and> 0 \<le> q))"
proof (cases v)
  case (JNum n)
  then show ?thesis by (cases n) auto
qed auto

lemma string_typeof_iff: "js_typeof v = ''string'' \<longleftrightarrow> (\<exists>s. v = JStr s)"
  by (cases v) simp_all

lemma optional_address_iff:
  "(case (if js_truthy v then Some (normalizeAddress v) else None) of
      Some t \<Rightarrow> t \<noteq> [] \<and> \<not> isValidAddress t | None \<Rightarrow> False)
   \<longleftrightarrow> \<not> (js_truthy v \<and> normalizeAddress v \<noteq> [] \<longrightarrow> isValidAddress (normalizeAddress v))"
  by simp

lemma data_check_iff:
  "(if js_truthy v
    then (case js_String v of
            None \<Rightarrow> Some TypeError
          | Some d \<Rightarrow> if \<not> HEX_DATA_REGEX d then Some (Error m) else None)
    else None) = None
   \<longleftrightarrow> (js_truthy v \<longrightarrow> (\<exists>d. js_String v = Some d \<and> HEX_DATA_REGEX d))"
  by (simp split: option.splits)

lemma validateTransactionPayload_accepts:
  "(\<exists>p. validateTransactionPayload payload state = Inr p) \<longleftrightarrow>
     js_truthy payload \<and> js_typeof payload = ''object''
     \<and> (\<exists>n. requested_text payload ''network'' = Some n \<and> NETWORK_REGEX n
              \<and> isKnownNetwork state n)
     \<and> isValidAddress (normalizeAddress (js_get payload ''from''))
     \<and> (js_truthy (js_get payload ''to'') \<and> normalizeAddress (js_get payload ''to'') \<noteq> []
          \<longrightarrow> isValidAddress (normalizeAddress (js_get payload ''to'')))
     \<and> (js_truthy (js_get payload ''contract'')
          \<and> normalizeAddress (js_get payload ''contract'') \<noteq> []
          \<longrightarrow> isValidAddress (normalizeAddress (js_get payload ''contract'')))
     \<and> (js_get payload ''nonce'' = JUndefined
          \<or> (\<exists>q t. js_get payload ''nonce'' = JNum (Fin q t) \<and> 0 \<le> q))
     \<and> (js_get payload ''value'' = JUndefined \<or> (\<exists>s. js_get payload ''value'' = JStr s))
     \<and> (js_truthy (js_get payload ''data'')
          \<longrightarrow> (\<exists>d. js_String (js_get payload ''data'') = Some d \<and> HEX_DATA_REGEX d))
     \<and> (js_truthy (js_get payload ''gasPrice'')
          \<longrightarrow> (\<exists>s. js_get payload ''gasPrice'' = JStr s))"
  (is "?L \<longleftrightarrow> ?A \<and> ?O \<and> ?N \<and> ?F \<and> ?T \<and> ?C \<and> ?NO \<and> ?V \<and> ?D \<and> ?G")
proof -
  define tchk where "tchk = (case (if js_truthy (js_get payload ''to'')
        then Some (normalizeAddress (js_get payload ''to'')) else None) of
      Some t \<Rightarrow> t \<noteq> [] \<and> \<not> isValidAddress t | None \<Rightarrow> False)"
  define cchk where "cchk = (case (if js_truthy (js_get payload ''contract'')
        then Some (normalizeAddress (js_get payload ''contract'')) else None) of
      Some t \<Rightarrow> t \<noteq> [] \<and> \<not> isValidAddress t | None \<Rightarrow> False)"
  define nchk where "nchk = (js_get payload ''nonce'' \<noteq> JUndefined \<and>
                   (case js_get payload ''nonce'' of
                      JNum n \<Rightarrow> \<not> js_isFinite n \<or> js_negative n
                    | _ \<Rightarrow> True))"
  define vchk where "vchk = (js_get payload ''value'' \<noteq> JUndefined \<and>
                   js_typeof (js_get payload ''value'') \<noteq> ''string'')"
  define dchk where "dchk = (if js_truthy (js_get payload ''data'')
                       then (case js_String (js_get payload ''data'') of
                               None \<Rightarrow> Some TypeError
                             | Some d \<Rightarrow>
                                 if \<not> HEX_DATA_REGEX d
                                 then Some (Error ''data must be a hex string.'') else None)
                       else None)"
  define gchk where "gchk = (js_truthy (js_get payload ''gasPrice'') \<and>
                        js_typeof (js_get payload ''gasPrice'') \<noteq> ''string'')"
  define nopt where "nopt = js_String (coalesce (js_get payload ''network'') (JStr []))"
  have shape: "?L \<longleftrightarrow> js_truthy payload \<and> js_typeof payload = ''object''
      \<and> (\<exists>ns. nopt = Some ns \<and> NETWORK_REGEX (trim ns) \<and> isKnownNetwork state (trim ns))
      \<and> isValidAddress (normalizeAddress (js_get payload ''from''))
      \<and> \<not> tchk \<and> \<not> cchk \<and> \<not> nchk \<and> \<not> vchk \<and> dchk = None \<and> \<not> gchk"
    unfolding validateTransactionPayload_def Let_def
      tchk_def[symmetric] cchk_def[symmetric] nchk_def[symmetric] vchk_def[symmetric]
      dchk_def[symmetric] gchk_def[symmetric] nopt_def[symmetric]
    by (cases nopt; cases dchk; auto)
  have n: "(\<exists>ns. nopt = Some ns \<and> NETWORK_REGEX (trim ns) \<and> isKnownNetwork state (trim ns)) \<longleftrightarrow> ?N"
    unfolding nopt_def requested_text_def by auto
  have t: "\<not> tchk \<longleftrightarrow> ?T" unfolding tchk_def optional_address_iff by blast
  have c: "\<not> cchk \<longleftrightarrow> ?C" unfolding cchk_def optional_address_iff by blast
  have no: "\<not> nchk \<longleftrightarrow> ?NO" unfolding nchk_def nonce_ok_iff by blast
  have v: "\<not> vchk \<longleftrightarrow> ?V" unfolding vchk_def string_typeof_iff by blast
  have d: "dchk = None \<longleftrightarrow> ?D" unfolding dchk_def by (rule data_check_iff)
  have g: "\<not> gchk \<longleftrightarrow> ?G" unfolding gchk_def string_typeof_iff by blast
  show ?thesis unfolding shape n t c no v d g ..
qed

text \<open>A payload whose \<^verbatim>\<open>to\<close> is three spaces, and a switch request with the same address.\<close>

lemma example_blank_to_validated:
  "validateTransactionPayload payload_blank_to (newDaemonState DEFAULT_CONFIG) = Inr payload_blank_to"
  by code_simp

lemma example_blank_address_rejected:
  "fst (switchSession state_a req_switch_blank) = Inl (Error ''address must be a valid hex string.'')"
  by code_simp

text \<open>
  C5. The claim has \<open>createTransaction\<close> reject a payload whose \<^verbatim>\<open>to\<close> is present and not a
  valid address. On the payload with a loaded network, a valid \<^verbatim>\<open>from\<close> and a \<^verbatim>\<open>to\<close> of
  three spaces it does not: \<open>validateTransactionPayload\<close> trims \<^verbatim>\<open>to\<close> to the empty string
  before it tests \<^verbatim>\<open>to && !isValidAddress(to)\<close>, the test is skipped, and the record is
  stored as \<open>PENDING\<close> with the blank \<^verbatim>\<open>to\<close>. \<open>switchSession\<close> tests the member of the request
  instead and rejects the same blank address.
\<close>

theorem createTransaction_blank_to:
  "js_get payload_blank_to ''to'' = JStr ''   ''
   \<and> \<not> isValidAddress ''   '' \<and> \<not> isValidAddress (normalizeAddress (JStr ''   ''))
   \<and> createTransaction (newDaemonState DEFAULT_CONFIG) payload_blank_to uuid_c 1700000000000 =
       (Inr tx_blank_to,
        (newDaemonState DEFAULT_CONFIG)\<lparr>txStore := (txStore (newDaemonState DEFAULT_CONFIG))(uuid_c \<mapsto> tx_blank_to)\<rparr>)
   \<and> fst (switchSession state_a req_switch_blank) = Inl (Error ''address must be a valid hex string.'')"
proof -
  have 1: "js_get payload_blank_to ''to'' = JStr ''   ''" by simp
  have 2: "\<not> isValidAddress ''   ''" "\<not> isValidAddress (normalizeAddress (JStr ''   ''))"
    by code_simp+
  have 3: "createTransaction (newDaemonState DEFAULT_CONFIG) payload_blank_to uuid_c 1700000000000 =
       (Inr tx_blank_to,
        (newDaemonState DEFAULT_CONFIG)\<lparr>txStore := (txStore (newDaemonState DEFAULT_CONFIG))(uuid_c \<mapsto> tx_blank_to)\<rparr>)"
    unfolding createTransaction_def example_blank_to_validated by (simp add: Let_def)
  show ?thesis
    by (intro conjI) (rule 1 2 3 example_blank_address_rejected)+
qed

end
